theory Spec2Isabelle
  imports Complex_Main "HOL-Library.Word"
begin

section \<open>Go values and failures\<close>

text \<open>
  A Go panic ends the handler that raised it; it is a value of type \<open>panic\<close> on the
  left of a sum. Ordinary Go errors are strings on the left of a sum of their own.
\<close>

datatype panic =
    TypeAssertion string    \<comment> \<open>\<open>x.(T)\<close> without comma-ok on a value that is no \<open>T\<close>\<close>
  | NilMapAssign            \<comment> \<open>assignment to an entry of a nil map\<close>
  | NilDeref                \<comment> \<open>field access through a nil pointer\<close>
  | IndexOutOfRange
  | PanicError string       \<comment> \<open>explicit \<open>panic(fmt.Errorf(...))\<close>\<close>

text \<open>
  A value of Go's \<open>interface{}\<close>, with the dynamic types that occur in a deploy
  configuration: what \<open>encoding/json\<close> decodes into (nil, bool, float64, string,
  \<open>[]interface{}\<close>, \<open>map[string]interface{}\<close>) and the two typed containers the
  gateway stores directly (\<open>[]string\<close>, \<open>map[string]string\<close>). A map inside a
  value is an association list in iteration order.
\<close>

datatype dyn =
    DNil
  | DBool bool
  | DFloat rat
  | DString string
  | DSlice "dyn list"
  | DMap "(string \<times> dyn) list"
  | DStrings "string list"
  | DStringMap "(string \<times> string) list"

text \<open>
  \<open>map[string]interface{}\<close> at the top level of a configuration: \<open>None\<close> is the nil
  map. Reading a nil map or a missing key gives the nil interface.
\<close>

type_synonym config = "(string \<rightharpoonup> dyn) option"

definition cfg_lookup :: "config \<Rightarrow> string \<Rightarrow> dyn option" where
  "cfg_lookup m k = (case m of None \<Rightarrow> None | Some f \<Rightarrow> f k)"

definition cfg_get :: "config \<Rightarrow> string \<Rightarrow> dyn" where
  "cfg_get m k = (case cfg_lookup m k of None \<Rightarrow> DNil | Some v \<Rightarrow> v)"

section \<open>Cluster objects\<close>

datatype Format = DecimalSI | BinarySI | DecimalExponent

record Quantity =
  q_value :: rat
  q_format :: Format

type_synonym ResourceName = string

definition ResourceCPU :: ResourceName where "ResourceCPU = ''cpu''"
definition ResourceMemory :: ResourceName where "ResourceMemory = ''memory''"
definition ResourceEphemeralStorage :: ResourceName where
  "ResourceEphemeralStorage = ''ephemeral-storage''"

text \<open>A \<open>ResourceList\<close> is a Go map; \<open>None\<close> is the nil map.\<close>

type_synonym ResourceList = "(ResourceName \<rightharpoonup> Quantity) option"

record ResourceRequirements =
  Requests :: ResourceList
  Limits :: ResourceList

record EnvVar =
  ev_Name :: string
  ev_Value :: string

record Container =
  c_Name :: string
  c_Image :: string
  c_Env :: "EnvVar list"
  c_Args :: "string list"
  c_Resources :: ResourceRequirements

text \<open>
  Times are nanoseconds since the epoch, durations are nanoseconds; \<open>time.Time.Sub\<close>
  saturates at the ends of the 64-bit \<open>Duration\<close>.
\<close>

type_synonym Time = int
type_synonym Duration = int

definition maxDuration :: Duration where "maxDuration = 2 ^ 63 - 1"
definition minDuration :: Duration where "minDuration = - (2 ^ 63)"

definition Sub :: "Time \<Rightarrow> Time \<Rightarrow> Duration" where
  "Sub t u = (let d = t - u in
     if d > maxDuration then maxDuration
     else if d < minDuration then minDuration
     else d)"

record Pod =
  pod_Name :: string
  pod_Namespace :: string
  pod_Labels :: "(string \<rightharpoonup> string) option"
  pod_ResourceVersion :: string
  pod_UID :: string
  pod_InitContainers :: "Container list"
  pod_Containers :: "Container list"
  pod_CreationTimestamp :: Time
  pod_Phase :: string
  pod_PodIP :: string

text \<open>
  Modelled from the spec: the package \<open>controller/pkg/constants\<close> is missing; the key
  of the TTL label is the one \<open>createPod\<close> names in its log line.
\<close>

definition AENV_TTL :: string where "AENV_TTL = ''aenv-ttl''"

text \<open>\<open>pod.Labels[k]\<close>: the empty string when the map is nil or the key is missing.\<close>

definition label :: "Pod \<Rightarrow> string \<Rightarrow> string" where
  "label pod k = (case pod_Labels pod of None \<Rightarrow> []
     | Some m \<Rightarrow> (case m k of None \<Rightarrow> [] | Some v \<Rightarrow> v))"

section \<open>The instance cache: \<open>ListExpiredPods\<close>\<close>

text \<open>
  The log lines a scan writes. \<open>TtlParseWarning ttl name\<close> is the \<open>klog.Warningf\<close>
  of a label that does not parse; \<open>ExpiredInfo name created limited\<close> is the
  \<open>klog.Infof\<close> inside the age test.
\<close>

datatype klog =
    TtlParseWarning string string
  | ExpiredInfo string Time Duration

text \<open>
  The loop of \<open>ListExpiredPods\<close> over the items of the namespace index, with the
  slice \<open>expired\<close> and the log as accumulators. \<open>ParseDuration\<close> is Go's
  \<open>time.ParseDuration\<close> (\<open>None\<close> for its error) and \<open>now\<close> is what \<open>time.Now()\<close>
  returns; both are parameters. The age test guards the log line only: the
  \<open>append\<close> follows the \<open>if\<close> block.
\<close>

fun expired_loop ::
  "(string \<Rightarrow> Duration option) \<Rightarrow> Time \<Rightarrow> Pod list \<Rightarrow> Pod list \<Rightarrow> klog list
     \<Rightarrow> Pod list \<times> klog list" where
  "expired_loop ParseDuration now [] expired logs = (expired, logs)"
| "expired_loop ParseDuration now (pod # items) expired logs =
     (let ttlValue = label pod AENV_TTL in
      if ttlValue = [] then expired_loop ParseDuration now items expired logs
      else (case ParseDuration ttlValue of
          None \<Rightarrow> expired_loop ParseDuration now items expired
                    (logs @ [TtlParseWarning ttlValue (pod_Name pod)])
        | Some limited \<Rightarrow>
            (let createdAt = pod_CreationTimestamp pod;
                 currentTime = now;
                 logs' = (if Sub currentTime createdAt > limited
                         then logs @ [ExpiredInfo (pod_Name pod) createdAt limited]
                         else logs)
             in expired_loop ParseDuration now items (expired @ [pod]) logs')))"

text \<open>
  \<open>ListExpiredPods\<close>: \<open>byIndex\<close> is the result of \<open>c.cache.ByIndex\<close> for the
  namespace, an error or the cached pods.
\<close>

definition ListExpiredPods ::
  "(string \<Rightarrow> Duration option) \<Rightarrow> Time \<Rightarrow> string + Pod list
     \<Rightarrow> (string + Pod list) \<times> klog list" where
  "ListExpiredPods ParseDuration now byIndex =
     (case byIndex of
        Inl err \<Rightarrow> (Inl err, [])
      | Inr items \<Rightarrow>
          (case expired_loop ParseDuration now items [] [] of
             (expired, logs) \<Rightarrow> (Inr expired, logs)))"

text \<open>
  A fragment of \<open>time.ParseDuration\<close> for concrete evaluation (the function belongs to
  Go's standard library, not to the repository): one unsigned decimal integer followed
  by one unit, and the special case \<open>0\<close>. The library also reads signs, fractions and
  several segments; those strings are outside the fragment, which answers \<open>None\<close>
  for them. The lemmas on the scan take the parser as a parameter and do not rest
  on this fragment.
\<close>

fun position :: "char \<Rightarrow> nat \<Rightarrow> string \<Rightarrow> nat option" where
  "position c i [] = None"
| "position c i (d # ds) = (if c = d then Some i else position c (Suc i) ds)"

definition digit_val :: "char \<Rightarrow> nat option" where
  "digit_val c = position c 0 ''0123456789''"

fun leadingInt :: "nat \<Rightarrow> string \<Rightarrow> nat \<times> string" where
  "leadingInt acc [] = (acc, [])"
| "leadingInt acc (c # cs) =
     (case digit_val c of
        None \<Rightarrow> (acc, c # cs)
      | Some d \<Rightarrow> leadingInt (acc * 10 + d) cs)"

definition unitMap :: "string \<Rightarrow> nat option" where
  "unitMap u =
     (if u = ''ns'' then Some 1
      else if u = ''us'' then Some 1000
      else if u = ''ms'' then Some 1000000
      else if u = ''s'' then Some 1000000000
      else if u = ''m'' then Some 60000000000
      else if u = ''h'' then Some 3600000000000
      else None)"

definition ParseDuration_fragment :: "string \<Rightarrow> Duration option" where
  "ParseDuration_fragment s =
     (if s = ''0'' then Some 0
      else (case leadingInt 0 s of (v, rest) \<Rightarrow>
        if rest = s then None
        else (case unitMap rest of
            None \<Rightarrow> None
          | Some unit \<Rightarrow>
              if int (v * unit) > maxDuration then None else Some (int (v * unit)))))"

section \<open>The controller: merging a definition into a template\<close>

record Artifact =
  a_Id :: string
  a_Type :: string
  a_Content :: string

record AEnvHubEnv =
  env_ID :: string
  env_Name :: string
  env_Description :: string
  env_Version :: string
  env_Tags :: "string list"
  env_CodeURL :: string
  env_Status :: int
  env_Artifacts :: "Artifact list"
  env_BuildConfig :: config
  env_TestConfig :: config
  env_DeployConfig :: config
  env_CreatedAt :: Time
  env_UpdatedAt :: Time

text \<open>
  The loop of \<open>applyConfig\<close> over \<open>environmentVariables\<close>: every entry is appended
  to the container's list; \<open>v.(string)\<close> panics on a value that is no string.
\<close>

fun append_env_vars :: "(string \<times> dyn) list \<Rightarrow> EnvVar list \<Rightarrow> panic + EnvVar list" where
  "append_env_vars [] env = Inr env"
| "append_env_vars ((k, v) # kvs) env =
     (case v of
        DString s \<Rightarrow> append_env_vars kvs (env @ [\<lparr>ev_Name = k, ev_Value = s\<rparr>])
      | _ \<Rightarrow> Inl (TypeAssertion ''string''))"

text \<open>
  \<open>rl[name]\<close> read for \<open>Cmp\<close>: the zero quantity when the map is nil or has no such
  entry. \<open>Quantity.Cmp\<close> compares the numbers, whatever the formats.
\<close>

definition quantity_of :: "ResourceList \<Rightarrow> ResourceName \<Rightarrow> rat" where
  "quantity_of rl name = (case rl of None \<Rightarrow> 0
     | Some m \<Rightarrow> (case m name of None \<Rightarrow> 0 | Some q \<Rightarrow> q_value q))"

definition assign_quantity :: "ResourceList \<Rightarrow> ResourceName \<Rightarrow> Quantity \<Rightarrow> panic + ResourceList" where
  "assign_quantity rl name q =
     (case rl of None \<Rightarrow> Inl NilMapAssign | Some m \<Rightarrow> Inr (Some (m(name \<mapsto> q))))"

text \<open>\<open>if current.Cmp(expect) != 0 { rl[name] = expect }\<close>\<close>

definition reset_quantity :: "ResourceList \<Rightarrow> ResourceName \<Rightarrow> Quantity \<Rightarrow> panic + ResourceList" where
  "reset_quantity rl name expect =
     (if quantity_of rl name \<noteq> q_value expect then assign_quantity rl name expect
      else Inr rl)"

text \<open>
  The four resets at the end of \<open>applyConfig\<close>, in the source's order: request CPU,
  request memory, limit CPU, limit memory.
\<close>

definition apply_resources :: "Quantity \<Rightarrow> Quantity \<Rightarrow> Container \<Rightarrow> panic + Container" where
  "apply_resources expectCpu expectMemory container =
     (let resources = c_Resources container in
      case reset_quantity (Requests resources) ResourceCPU expectCpu of
        Inl p \<Rightarrow> Inl p
      | Inr req1 \<Rightarrow>
      (case reset_quantity req1 ResourceMemory expectMemory of
        Inl p \<Rightarrow> Inl p
      | Inr req2 \<Rightarrow>
      (case reset_quantity (Limits resources) ResourceCPU expectCpu of
        Inl p \<Rightarrow> Inl p
      | Inr lim1 \<Rightarrow>
      (case reset_quantity lim1 ResourceMemory expectMemory of
        Inl p \<Rightarrow> Inl p
      | Inr lim2 \<Rightarrow>
          Inr (container\<lparr>c_Resources := \<lparr>Requests = req2, Limits = lim2\<rparr>\<rparr>)))))"

text \<open>
  \<open>applyConfig\<close>. \<open>ParseQuantity\<close> is \<open>resource.ParseQuantity\<close> of the cluster
  library (\<open>None\<close> for its error), a parameter.
\<close>

definition applyConfig ::
  "(string \<Rightarrow> Quantity option) \<Rightarrow> config \<Rightarrow> Container \<Rightarrow> panic + Container" where
  "applyConfig ParseQuantity configs container =
     (case (case cfg_get configs ''environmentVariables'' of
              DMap environmentVariables \<Rightarrow>
                append_env_vars environmentVariables (c_Env container)
            | _ \<Rightarrow> Inr (c_Env container)) of
        Inl p \<Rightarrow> Inl p
      | Inr env \<Rightarrow>
          (let args = (case cfg_get configs ''arguments'' of
                         DStrings arguments \<Rightarrow> c_Args container @ arguments
                       | _ \<Rightarrow> c_Args container);
               container1 = container\<lparr>c_Env := env, c_Args := args\<rparr>
           in if cfg_get configs ''resource'' \<noteq> DString ''autoscale'' then Inr container1
              else (case cfg_get configs ''cpu'' of
                  DString strCpu \<Rightarrow>
                    (case cfg_get configs ''memory'' of
                       DString strMemory \<Rightarrow>
                         (case ParseQuantity strCpu of
                            None \<Rightarrow> Inr container1
                          | Some expectCpu \<Rightarrow>
                              (case ParseQuantity strMemory of
                                 None \<Rightarrow> Inr container1
                               | Some expectMemory \<Rightarrow>
                                   apply_resources expectCpu expectMemory container1))
                     | _ \<Rightarrow> Inl (TypeAssertion ''string''))
                | _ \<Rightarrow> Inl (TypeAssertion ''string''))))"

fun first_image :: "Artifact list \<Rightarrow> string" where
  "first_image [] = []"
| "first_image (artifact # rest) =
     (if a_Type artifact = ''image'' then a_Content artifact else first_image rest)"

text \<open>
  The loop of \<open>MergePodImage\<close> over \<open>pod.Spec.Containers\<close>; \<open>i\<close> is the index of
  the head of the list.
\<close>

fun merge_containers ::
  "(string \<Rightarrow> Quantity option) \<Rightarrow> config \<Rightarrow> string \<Rightarrow> nat \<Rightarrow> Container list
     \<Rightarrow> panic + Container list" where
  "merge_containers ParseQuantity deployConfig img i [] = Inr []"
| "merge_containers ParseQuantity deployConfig img i (c # cs) =
     (case (if i = 1
            then (case cfg_lookup deployConfig ''secondImageName'' of
                    None \<Rightarrow> Inr (c\<lparr>c_Image := img\<rparr>)
                  | Some secondImageName \<Rightarrow>
                      (case secondImageName of
                         DString s \<Rightarrow> Inr (c\<lparr>c_Image := s\<rparr>)
                       | _ \<Rightarrow> Inl (TypeAssertion ''string'')))
            else Inr (c\<lparr>c_Image := img\<rparr>)) of
        Inl p \<Rightarrow> Inl p
      | Inr c1 \<Rightarrow>
          (case applyConfig ParseQuantity deployConfig c1 of
             Inl p \<Rightarrow> Inl p
           | Inr c2 \<Rightarrow>
               (case merge_containers ParseQuantity deployConfig img (Suc i) cs of
                  Inl p \<Rightarrow> Inl p
                | Inr cs' \<Rightarrow> Inr (c2 # cs'))))"

definition MergePodImage ::
  "(string \<Rightarrow> Quantity option) \<Rightarrow> Pod \<Rightarrow> AEnvHubEnv \<Rightarrow> panic + Pod" where
  "MergePodImage ParseQuantity pod aenv =
     (let img = first_image (env_Artifacts aenv);
          inits = map (\<lambda>c. c\<lparr>c_Image := img\<rparr>) (pod_InitContainers pod)
      in case merge_containers ParseQuantity (env_DeployConfig aenv) img 0
                (pod_Containers pod) of
           Inl p \<Rightarrow> Inl p
         | Inr cs \<Rightarrow> Inr (pod\<lparr>pod_InitContainers := inits, pod_Containers := cs\<rparr>))"

text \<open>
  The environment merge of \<open>MergePod\<close> for one container: a name the container
  already has gets the new value at its first entry, a new name is appended.
\<close>

fun set_env_var :: "string \<Rightarrow> string \<Rightarrow> EnvVar list \<Rightarrow> EnvVar list option" where
  "set_env_var k v [] = None"
| "set_env_var k v (e # es) =
     (if ev_Name e = k then Some (e\<lparr>ev_Value := v\<rparr> # es)
      else map_option ((#) e) (set_env_var k v es))"

fun merge_env_entries :: "(string \<times> string) list \<Rightarrow> EnvVar list \<Rightarrow> EnvVar list" where
  "merge_env_entries [] env = env"
| "merge_env_entries ((k, v) # environs) env =
     (case set_env_var k v env of
        Some env' \<Rightarrow> merge_env_entries environs env'
      | None \<Rightarrow> merge_env_entries environs (env @ [\<lparr>ev_Name = k, ev_Value = v\<rparr>]))"

definition mergeEnvVars :: "(string \<times> string) list \<Rightarrow> Container list \<Rightarrow> Container list" where
  "mergeEnvVars environs containers =
     map (\<lambda>container. container\<lparr>c_Env := merge_env_entries environs (c_Env container)\<rparr>)
       containers"

text \<open>
  \<open>make\<close> on a nil map, then the assignment: the closure \<open>updateResources\<close> of
  \<open>MergePod\<close> guards every write this way.
\<close>

definition make_and_set :: "ResourceList \<Rightarrow> ResourceName \<Rightarrow> Quantity \<Rightarrow> ResourceList" where
  "make_and_set rl name q =
     Some ((case rl of None \<Rightarrow> Map.empty | Some m \<Rightarrow> m)(name \<mapsto> q))"

definition updateResources :: "int \<Rightarrow> int \<Rightarrow> Container \<Rightarrow> Container" where
  "updateResources memory ephemeralStorage container =
     (let memoryBytes = memory * 1024 * 1024;
          r0 = c_Resources container;
          r1 = (if memory \<ge> 256 \<and> memory \<le> 8192
                then (let memQty = \<lparr>q_value = of_int memoryBytes, q_format = BinarySI\<rparr>
                      in \<lparr>Requests = make_and_set (Requests r0) ResourceMemory memQty,
                          Limits = make_and_set (Limits r0) ResourceMemory memQty\<rparr>)
                else r0);
          r2 = (if ephemeralStorage \<ge> 1 * 1024 * 1024 * 1024
                   \<and> ephemeralStorage \<le> 50 * 1024 * 1024 * 1024
                then (let storageQty = \<lparr>q_value = of_int ephemeralStorage, q_format = BinarySI\<rparr>
                      in \<lparr>Requests = make_and_set (Requests r1) ResourceEphemeralStorage storageQty,
                          Limits = make_and_set (Limits r1) ResourceEphemeralStorage storageQty\<rparr>)
                else r1)
      in container\<lparr>c_Resources := r2\<rparr>)"

fun merge_labels :: "(string \<times> string) list \<Rightarrow> (string \<rightharpoonup> string) \<Rightarrow> (string \<rightharpoonup> string)" where
  "merge_labels [] m = m"
| "merge_labels ((k, v) # labels) m = merge_labels labels (m(k \<mapsto> v))"

text \<open>
  \<open>MergePod\<close>. The two map arguments are association lists in iteration order,
  \<open>None\<close> for nil. With the memory in its accepted range the product
  \<open>int64(memory) * 1024 * 1024\<close> cannot wrap, and it is read in that range only.
\<close>

definition MergePod ::
  "Pod \<Rightarrow> (string \<times> string) list option \<Rightarrow> (string \<times> string) list option \<Rightarrow> int \<Rightarrow> int
     \<Rightarrow> string \<Rightarrow> Pod" where
  "MergePod pod labels environs memory ephemeralStorage img =
     (let pod1 = (case labels of
                    None \<Rightarrow> pod
                  | Some ls \<Rightarrow>
                      pod\<lparr>pod_Labels := Some (merge_labels ls
                        (case pod_Labels pod of None \<Rightarrow> Map.empty | Some m \<Rightarrow> m))\<rparr>);
          pod2 = (case environs of
                    None \<Rightarrow> pod1
                  | Some es \<Rightarrow>
                      pod1\<lparr>pod_InitContainers := mergeEnvVars es (pod_InitContainers pod1),
                           pod_Containers := mergeEnvVars es (pod_Containers pod1)\<rparr>);
          finish = (\<lambda>container.
                      (updateResources memory ephemeralStorage container)\<lparr>c_Image := img\<rparr>)
      in pod2\<lparr>pod_InitContainers := map finish (pod_InitContainers pod2),
              pod_Containers := map finish (pod_Containers pod2)\<rparr>)"

section \<open>The template store\<close>

definition AMD64 :: string where "AMD64 = ''amd64''"
definition WIN64 :: string where "WIN64 = ''win64''"
definition SingleContainerTemplate :: string where
  "SingleContainerTemplate = ''singleContainer''"
definition letters :: string where
  "letters = ''abcdefghijklmnopqrstuvwxyz0123456789''"

text \<open>
  \<open>RandString\<close>: \<open>rnd k\<close> is the \<open>k\<close>-th number the random source gives;
  \<open>r.Intn(len(letters))\<close> brings it below the length of \<open>letters\<close>.
\<close>

definition RandString :: "(nat \<Rightarrow> nat) \<Rightarrow> nat \<Rightarrow> string" where
  "RandString rnd n = map (\<lambda>k. letters ! (rnd k mod length letters)) [0..<n]"

text \<open>
  The file system is a partial map from paths to contents (\<open>None\<close>: \<open>os.ReadFile\<close>
  fails). \<open>yaml.Unmarshal\<close> into a \<open>*corev1.Pod\<close> is a parameter: it fails,
  leaves the pointer nil (an empty document), or gives a pod.
\<close>

type_synonym filesystem = "string \<rightharpoonup> string"

datatype yaml_result = YamlError string | YamlNil | YamlPod Pod

definition legacyTemplateFileName :: "string \<Rightarrow> string" where
  "legacyTemplateFileName machineType =
     (if machineType = AMD64 \<or> machineType = SingleContainerTemplate
        then ''/home/admin/pod_template_linux/config.yaml''
      else if machineType = WIN64
        then ''/home/admin/pod_template_windows/config.yaml''
      else if machineType = ''Terminal''
        then ''/home/admin/pod_template_terminal/config.yaml''
      else ''/home/admin/pod_template_linux/config.yaml'')"

text \<open>The result is a pointer: \<open>Inr None\<close> is the nil pod.\<close>

definition loadPodTemplateFromLegacyPath ::
  "filesystem \<Rightarrow> (string \<Rightarrow> yaml_result) \<Rightarrow> string \<Rightarrow> panic + Pod option" where
  "loadPodTemplateFromLegacyPath fs yaml machineType =
     (let templateFileName = legacyTemplateFileName machineType in
      case fs templateFileName of
        None \<Rightarrow> Inl (PanicError (''failed to read YAML file '' @ templateFileName))
      | Some yamlFile \<Rightarrow>
          (case yaml yamlFile of
             YamlError e \<Rightarrow> Inl (PanicError (''failed to unmarshal YAML: '' @ e))
           | YamlNil \<Rightarrow> Inr None
           | YamlPod pod \<Rightarrow> Inr (Some pod)))"

definition templateFilePath :: "string \<Rightarrow> string" where
  "templateFilePath machineType = ''/etc/aenv/pod-templates'' @ ''/'' @ machineType @ ''.yaml''"

definition LoadPodTemplateFromYaml ::
  "filesystem \<Rightarrow> (string \<Rightarrow> yaml_result) \<Rightarrow> string \<Rightarrow> panic + Pod option" where
  "LoadPodTemplateFromYaml fs yaml machineType =
     (case fs (templateFilePath machineType) of
        None \<Rightarrow> loadPodTemplateFromLegacyPath fs yaml machineType
      | Some yamlFile \<Rightarrow>
          (case yaml yamlFile of
             YamlError e \<Rightarrow>
               Inl (PanicError (''failed to unmarshal YAML from '' @ templateFilePath machineType
                      @ '': '' @ e))
           | YamlNil \<Rightarrow> Inl NilDeref
           | YamlPod pod \<Rightarrow> Inr (Some (pod\<lparr>pod_ResourceVersion := [], pod_UID := []\<rparr>))))"

definition LoadNsFromPodTemplate ::
  "filesystem \<Rightarrow> (string \<Rightarrow> yaml_result) \<Rightarrow> string \<Rightarrow> panic + string" where
  "LoadNsFromPodTemplate fs yaml machineType =
     (case LoadPodTemplateFromYaml fs yaml machineType of
        Inl p \<Rightarrow> Inl p
      | Inr None \<Rightarrow> Inl NilDeref
      | Inr (Some pod) \<Rightarrow> Inr (pod_Namespace pod))"

section \<open>The controller's HTTP surface\<close>

text \<open>
  An error of the cluster API: a \<open>*errors.StatusError\<close> with the code and message of
  its status, or any other error.
\<close>

datatype k8s_error = StatusError "32 word" string | OtherError string

record HttpResponseData =
  d_ID :: string
  d_Status :: string
  d_IP :: string
  d_TTL :: string

record HttpResponse =
  r_Success :: bool
  r_Code :: int
  r_ResponseData :: HttpResponseData

record HttpDeleteResponse =
  dr_Success :: bool
  dr_Code :: int
  dr_ResponseData :: bool

record HttpListResponseData =
  l_ID :: string
  l_Status :: string
  l_TTL :: string
  l_CreatedAt :: Time

record HttpListResponse =
  lr_Success :: bool
  lr_Code :: int
  lr_ListResponseData :: "HttpListResponseData list"

text \<open>
  What a handler leaves in the response writer: the status and the body.
  \<open>ErrorText\<close> is the text given to \<open>http.Error\<close>; \<open>EmptyBody\<close> with status 200
  is a handler that returned without writing.
\<close>

datatype http_body =
    ErrorText string
  | JsonPod HttpResponse
  | JsonDelete HttpDeleteResponse
  | JsonList HttpListResponse
  | EmptyBody

record http_reply =
  rp_status :: int
  rp_body :: http_body

definition httpStatusFromK8s :: "32 word \<Rightarrow> int" where
  "httpStatusFromK8s code =
     (if code = 200 \<or> code = 201 \<or> code = 202 then 200
      else if code = 400 then 400
      else if code = 401 then 401
      else if code = 403 then 403
      else if code = 404 then 404
      else if code = 409 then 409
      else 500)"

definition handleK8sAPiError :: "k8s_error \<Rightarrow> string \<Rightarrow> http_reply" where
  "handleK8sAPiError err action =
     (case err of
        StatusError code message \<Rightarrow>
          \<lparr>rp_status = httpStatusFromK8s code,
           rp_body = ErrorText (action @ '' failed: err is '' @ message)\<rparr>
      | OtherError e \<Rightarrow>
          \<lparr>rp_status = 500, rp_body = ErrorText (action @ '' failed: err is '' @ e)\<rparr>)"

text \<open>The template kind \<open>createPod\<close> picks: \<open>podTemplate\<close> when it is a non-empty string.\<close>

definition templateType_of :: "config \<Rightarrow> string" where
  "templateType_of deployConfig =
     (case cfg_lookup deployConfig ''podTemplate'' of
        Some (DString podTemplateStr) \<Rightarrow>
          if podTemplateStr \<noteq> [] then podTemplateStr else SingleContainerTemplate
      | _ \<Rightarrow> SingleContainerTemplate)"

text \<open>
  The pod \<open>createPod\<close> submits: template kind, template, merge, the log line that
  reads \<open>pod.Spec.Containers[0]\<close>, the generated name and the TTL label.
\<close>

definition createPod_pod ::
  "filesystem \<Rightarrow> (string \<Rightarrow> yaml_result) \<Rightarrow> (string \<Rightarrow> Quantity option) \<Rightarrow> (nat \<Rightarrow> nat)
     \<Rightarrow> AEnvHubEnv \<Rightarrow> panic + Pod" where
  "createPod_pod fs yaml ParseQuantity rnd aenvHubEnv =
     (let templateType = templateType_of (env_DeployConfig aenvHubEnv)
      in case LoadPodTemplateFromYaml fs yaml templateType of
           Inl p \<Rightarrow> Inl p
         | Inr None \<Rightarrow> Inl NilDeref
         | Inr (Some pod) \<Rightarrow>
             (case MergePodImage ParseQuantity pod aenvHubEnv of
                Inl p \<Rightarrow> Inl p
              | Inr pod1 \<Rightarrow>
                  if pod_Containers pod1 = [] then Inl IndexOutOfRange
                  else (let pod2 = pod1\<lparr>pod_Name := env_Name aenvHubEnv @ ''-'' @ RandString rnd 6\<rparr>
                        in case cfg_get (env_DeployConfig aenvHubEnv) ''ttl'' of
                             DNil \<Rightarrow> Inr pod2
                           | DString ttlValue \<Rightarrow>
                               Inr (pod2\<lparr>pod_Labels :=
                                 Some ((case pod_Labels pod2 of
                                          None \<Rightarrow> Map.empty
                                        | Some labels \<Rightarrow> labels)(AENV_TTL \<mapsto> ttlValue))\<rparr>)
                           | _ \<Rightarrow> Inl (TypeAssertion ''string''))))"

text \<open>
  \<open>createPod\<close>. \<open>body\<close> is the decoded request, or the decoder's error; \<open>create\<close>
  is the cluster's answer to the submission. A panic leaves the handler without a
  reply.
\<close>

definition createPod ::
  "filesystem \<Rightarrow> (string \<Rightarrow> yaml_result) \<Rightarrow> (string \<Rightarrow> Quantity option) \<Rightarrow> (nat \<Rightarrow> nat)
     \<Rightarrow> (Pod \<Rightarrow> k8s_error + Pod) \<Rightarrow> string + AEnvHubEnv \<Rightarrow> panic + http_reply" where
  "createPod fs yaml ParseQuantity rnd create body =
     (case body of
        Inl err \<Rightarrow>
          Inr \<lparr>rp_status = 400, rp_body = ErrorText (''Invalid request body: '' @ err)\<rparr>
      | Inr aenvHubEnv \<Rightarrow>
          (case createPod_pod fs yaml ParseQuantity rnd aenvHubEnv of
             Inl p \<Rightarrow> Inl p
           | Inr pod \<Rightarrow>
               (case create pod of
                  Inl err \<Rightarrow> Inr (handleK8sAPiError err ''failed to create pod'')
                | Inr createdPod \<Rightarrow>
                    Inr \<lparr>rp_status = 201,
                         rp_body = JsonPod \<lparr>r_Success = True, r_Code = 0,
                           r_ResponseData = \<lparr>d_ID = pod_Name createdPod,
                             d_Status = pod_Phase createdPod,
                             d_IP = pod_PodIP createdPod, d_TTL = []\<rparr>\<rparr>\<rparr>)))"

text \<open>
  \<open>getPod\<close>: \<open>cached\<close> is the cache's answer (\<open>None\<close> for its error or a miss),
  \<open>get\<close> the cluster's answer to the direct read.
\<close>

definition getPod :: "Pod option \<Rightarrow> (string \<Rightarrow> k8s_error + Pod) \<Rightarrow> string \<Rightarrow> http_reply" where
  "getPod cached get podName =
     (if podName = [] then \<lparr>rp_status = 400, rp_body = ErrorText ''missing pod name''\<rparr>
      else (case (case cached of Some pod \<Rightarrow> Inr pod | None \<Rightarrow> get podName) of
          Inl err \<Rightarrow> handleK8sAPiError err ''failed to get pod''
        | Inr pod \<Rightarrow>
            \<lparr>rp_status = 200,
             rp_body = JsonPod \<lparr>r_Success = True, r_Code = 0,
               r_ResponseData = \<lparr>d_ID = pod_Name pod, d_Status = pod_Phase pod,
                 d_IP = pod_PodIP pod, d_TTL = label pod AENV_TTL\<rparr>\<rparr>\<rparr>))"

definition deletePod :: "(string \<Rightarrow> k8s_error option) \<Rightarrow> string \<Rightarrow> http_reply" where
  "deletePod delete podName =
     (if podName = [] then \<lparr>rp_status = 400, rp_body = ErrorText ''missing pod name''\<rparr>
      else (case delete podName of
          Some err \<Rightarrow> handleK8sAPiError err ''failed to delete Pod''
        | None \<Rightarrow>
            \<lparr>rp_status = 200,
             rp_body = JsonDelete \<lparr>dr_Success = True, dr_Code = 0, dr_ResponseData = True\<rparr>\<rparr>))"

text \<open>
  \<open>listPod\<close>: both branches read the same namespace index; on an error of the
  cache the handler logs and returns without writing.
\<close>

definition listPod ::
  "(string \<Rightarrow> Duration option) \<Rightarrow> Time \<Rightarrow> string + Pod list \<Rightarrow> string \<Rightarrow> http_reply" where
  "listPod ParseDuration now byIndex filterMark =
     (case (if filterMark = ''expired''
            then fst (ListExpiredPods ParseDuration now byIndex)
            else byIndex) of
        Inl err \<Rightarrow> \<lparr>rp_status = 200, rp_body = EmptyBody\<rparr>
      | Inr podList \<Rightarrow>
          \<lparr>rp_status = 200,
           rp_body = JsonList \<lparr>lr_Success = True, lr_Code = 0,
             lr_ListResponseData =
               map (\<lambda>pod. \<lparr>l_ID = pod_Name pod, l_Status = pod_Phase pod,
                            l_TTL = label pod AENV_TTL,
                            l_CreatedAt = pod_CreationTimestamp pod\<rparr>) podList\<rparr>\<rparr>)"

section \<open>The gateway's controller adapter and the cleanup pass\<close>

text \<open>
  Modelled from the spec: the package \<open>api-service/models\<close> is missing; an instance as
  the adapter decodes it has the fields of the controller's response data (id, status,
  ip, ttl).
\<close>

record EnvInstance =
  ei_ID :: string
  ei_Status :: string
  ei_IP :: string
  ei_TTL :: string

text \<open>
  \<open>FilterPods\<close> and \<open>DeletePod\<close> of \<open>ScheduleClient\<close>, as functions of the HTTP
  exchange with the controller: \<open>Inl\<close> is a failure of the transport, \<open>Inr\<close> the
  controller's reply. A body of another shape does not unmarshal.
\<close>

definition FilterPods :: "string + http_reply \<Rightarrow> string + EnvInstance list" where
  "FilterPods exchange =
     (case exchange of
        Inl err \<Rightarrow> Inl (''failed to send request: '' @ err)
      | Inr resp \<Rightarrow>
          if rp_status resp \<noteq> 200 then Inl ''request failed with status''
          else (case rp_body resp of
              JsonList getResp \<Rightarrow>
                if \<not> lr_Success getResp then Inl ''server returned error''
                else Inr (map (\<lambda>d. \<lparr>ei_ID = l_ID d, ei_Status = l_Status d, ei_IP = [],
                                      ei_TTL = l_TTL d\<rparr>) (lr_ListResponseData getResp))
            | _ \<Rightarrow> Inl ''failed to unmarshal response''))"

definition DeletePod :: "string + http_reply \<Rightarrow> string + bool" where
  "DeletePod exchange =
     (case exchange of
        Inl err \<Rightarrow> Inl (''failed to send request: '' @ err)
      | Inr resp \<Rightarrow>
          if rp_status resp \<noteq> 200 then Inl ''request failed with status''
          else (case rp_body resp of
              JsonDelete deleteResp \<Rightarrow>
                if \<not> dr_Success deleteResp then Inl ''server returned error''
                else Inr (dr_ResponseData deleteResp)
            | _ \<Rightarrow> Inl ''failed to unmarshal response''))"

text \<open>
  The state of one cleanup pass: the counter, the ids handed to \<open>DeletePod\<close> in
  order, the ids whose deletion failed (the \<open>log.Warnf\<close> lines), and the world the
  deletions act on.
\<close>

record 'w cleanup_pass =
  deletedCount :: nat
  attempted :: "string list"
  warned :: "string list"
  world :: 'w

fun cleanup_loop ::
  "(string \<Rightarrow> 'w \<Rightarrow> (string + bool) \<times> 'w) \<Rightarrow> EnvInstance list \<Rightarrow> 'w cleanup_pass
     \<Rightarrow> 'w cleanup_pass" where
  "cleanup_loop delete [] st = st"
| "cleanup_loop delete (instance # rest) st =
     (if ei_Status instance = ''Terminated'' then cleanup_loop delete rest st
      else (case delete (ei_ID instance) (world st) of
          (Inl err, w) \<Rightarrow>
            cleanup_loop delete rest
              (st\<lparr>attempted := attempted st @ [ei_ID instance],
                  warned := warned st @ [ei_ID instance], world := w\<rparr>)
        | (Inr deleted, w) \<Rightarrow>
            cleanup_loop delete rest
              (st\<lparr>deletedCount := (if deleted then deletedCount st + 1 else deletedCount st),
                  attempted := attempted st @ [ei_ID instance], world := w\<rparr>)))"

text \<open>
  \<open>ScheduleClient.Cleanup\<close>: the returned error (\<open>None\<close> for nil) and the pass.
  \<open>envInstances\<close> is the result of \<open>FilterPods\<close>; \<open>delete\<close> is \<open>DeletePod\<close>
  acting on the world.
\<close>

definition Cleanup ::
  "(string \<Rightarrow> 'w \<Rightarrow> (string + bool) \<times> 'w) \<Rightarrow> string + EnvInstance list \<Rightarrow> 'w
     \<Rightarrow> string option \<times> 'w cleanup_pass" where
  "Cleanup delete envInstances w =
     (let start = \<lparr>deletedCount = 0, attempted = [], warned = [], world = w\<rparr> in
      case envInstances of
        Inl err \<Rightarrow> (Some (''failed to get env instances: '' @ err), start)
      | Inr instances \<Rightarrow>
          if instances = [] then (None, start)
          else (None, cleanup_loop delete instances start))"

section \<open>The gateway: \<open>CreateEnvInstance\<close>\<close>

record CreateEnvInstanceRequest =
  rq_EnvName :: string
  rq_Datasource :: string
  rq_EnvironmentVariables :: "(string \<times> string) list option"
  rq_Arguments :: "string list option"
  rq_TTL :: string

text \<open>
  Modelled from the spec: the package \<open>envhub/models\<close> is missing; a definition has
  the fields of the body of \<open>POST /pods\<close> that the controller reads (name, version,
  artifacts, deployConfig).
\<close>

record Env =
  be_Name :: string
  be_Version :: string
  be_Artifacts :: "Artifact list"
  be_DeployConfig :: config

text \<open>\<open>m[k] = v\<close> on a top-level configuration map.\<close>

definition cfg_set :: "config \<Rightarrow> string \<Rightarrow> dyn \<Rightarrow> panic + config" where
  "cfg_set m k v = (case m of None \<Rightarrow> Inl NilMapAssign | Some f \<Rightarrow> Inr (Some (f(k \<mapsto> v))))"

text \<open>
  The part of \<open>CreateEnvInstance\<close> that writes the request into the definition's
  deploy configuration: second image, environment variables, arguments, TTL.
\<close>

definition CreateEnvInstance_config :: "CreateEnvInstanceRequest \<Rightarrow> config \<Rightarrow> panic + config" where
  "CreateEnvInstance_config req deployConfig =
     (let dc1 =
            (if rq_Datasource req \<noteq> []
             then (let made = (case deployConfig of None \<Rightarrow> Map.empty | Some f \<Rightarrow> f);
                       imagePrefix = (case made ''imagePrefix'' of
                                        Some (DString str) \<Rightarrow> str
                                      | _ \<Rightarrow> ''docker.io/library/aenv'');
                       secondImageName = imagePrefix @ '':'' @ rq_Datasource req
                   in Some (made(''secondImageName'' \<mapsto> DString secondImageName)))
             else deployConfig)
      in case (case rq_EnvironmentVariables req of
                 None \<Rightarrow> Inr dc1
               | Some evs \<Rightarrow> cfg_set dc1 ''environmentVariables'' (DStringMap evs)) of
           Inl p \<Rightarrow> Inl p
         | Inr dc2 \<Rightarrow>
             (case (case rq_Arguments req of
                      None \<Rightarrow> Inr dc2
                    | Some args \<Rightarrow> cfg_set dc2 ''arguments'' (DStrings args)) of
                Inl p \<Rightarrow> Inl p
              | Inr dc3 \<Rightarrow> cfg_set dc3 ''ttl'' (DString (rq_TTL req))))"

text \<open>The replies of the gateway: an error with its code, or the created instance.\<close>

datatype gin_reply =
    JSONErrorWithMessage int string
  | JSONSuccess EnvInstance Env

text \<open>
  \<open>CreateEnvInstance\<close>. The parameters are the request as \<open>ShouldBindJSON\<close> gives
  it, \<open>util.SplitEnvNameVersionStrict\<close>, the registry's \<open>GetEnvByVersion\<close> (a nil
  definition is \<open>None\<close>) and the backend's \<open>CreateEnvInstance\<close>. The best-effort
  update of the tenant index does not change the reply and is left out.
\<close>

definition CreateEnvInstance ::
  "(string \<Rightarrow> string + string \<times> string) \<Rightarrow> (string \<Rightarrow> string \<Rightarrow> string + Env option)
     \<Rightarrow> (Env \<Rightarrow> string + EnvInstance) \<Rightarrow> string + CreateEnvInstanceRequest
     \<Rightarrow> panic + gin_reply" where
  "CreateEnvInstance SplitEnvNameVersionStrict GetEnvByVersion create bound =
     (case bound of
        Inl err \<Rightarrow> Inr (JSONErrorWithMessage 400 (''Invalid request parameters: '' @ err))
      | Inr req \<Rightarrow>
          (case SplitEnvNameVersionStrict (rq_EnvName req) of
             Inl err \<Rightarrow> Inr (JSONErrorWithMessage 400 (''Invalid EnvName format: '' @ err))
           | Inr (name, version) \<Rightarrow>
               (case GetEnvByVersion name version of
                  Inl err \<Rightarrow>
                    Inr (JSONErrorWithMessage 500 (''Failed to find environment: '' @ err))
                | Inr None \<Rightarrow>
                    Inr (JSONErrorWithMessage 404
                           (''Environment not found: '' @ rq_EnvName req))
                | Inr (Some backendEnv) \<Rightarrow>
                    (case CreateEnvInstance_config req (be_DeployConfig backendEnv) of
                       Inl p \<Rightarrow> Inl p
                     | Inr dc \<Rightarrow>
                         (let backendEnv' = backendEnv\<lparr>be_DeployConfig := dc\<rparr> in
                          case create backendEnv' of
                            Inl err \<Rightarrow>
                              Inr (JSONErrorWithMessage 500 (''Failed to create: '' @ err))
                          | Inr envInstance \<Rightarrow> Inr (JSONSuccess envInstance backendEnv'))))))"

text \<open>
  The definition on the wire from the gateway to the controller: \<open>json.Marshal\<close>,
  then the controller's decoder, which reads every array as \<open>[]interface{}\<close> and
  every object as \<open>map[string]interface{}\<close>. The order of a decoded map's entries
  is the order in which the controller will iterate it; the list order is kept here as
  one such order.
\<close>

fun wire :: "dyn \<Rightarrow> dyn" where
  "wire (DStrings xs) = DSlice (map DString xs)"
| "wire (DStringMap kvs) = DMap (map (\<lambda>kv. (fst kv, DString (snd kv))) kvs)"
| "wire (DSlice xs) = DSlice (map wire xs)"
| "wire (DMap kvs) = DMap (map (\<lambda>kv. (fst kv, wire (snd kv))) kvs)"
| "wire DNil = DNil"
| "wire (DBool b) = DBool b"
| "wire (DFloat x) = DFloat x"
| "wire (DString s) = DString s"

definition wire_config :: "config \<Rightarrow> config" where
  "wire_config m = map_option (\<lambda>f k. map_option wire (f k)) m"

definition wire_Env :: "Env \<Rightarrow> AEnvHubEnv" where
  "wire_Env e =
     \<lparr>env_ID = [], env_Name = be_Name e, env_Description = [], env_Version = be_Version e,
      env_Tags = [], env_CodeURL = [], env_Status = 0, env_Artifacts = be_Artifacts e,
      env_BuildConfig = None, env_TestConfig = None,
      env_DeployConfig = wire_config (be_DeployConfig e),
      env_CreatedAt = 0, env_UpdatedAt = 0\<rparr>"

text \<open>
  The merge a create request leads to: the gateway writes the request into the
  definition, the definition crosses the wire, and the controller merges it into the
  template \<open>pod\<close>.
\<close>

definition create_merge ::
  "(string \<Rightarrow> Quantity option) \<Rightarrow> CreateEnvInstanceRequest \<Rightarrow> Env \<Rightarrow> Pod \<Rightarrow> panic + Pod" where
  "create_merge ParseQuantity req backendEnv pod =
     (case CreateEnvInstance_config req (be_DeployConfig backendEnv) of
        Inl p \<Rightarrow> Inl p
      | Inr dc \<Rightarrow>
          MergePodImage ParseQuantity pod (wire_Env (backendEnv\<lparr>be_DeployConfig := dc\<rparr>)))"

section \<open>Quantities and sample data for evaluation\<close>

text \<open>
  A fragment of \<open>resource.ParseQuantity\<close> for concrete evaluation (the function
  belongs to the cluster library, not to the repository): an unsigned decimal integer
  followed by one suffix of the library's table, binary (\<open>Ki\<close> to \<open>Ei\<close>, powers of
  1024) or decimal (\<open>n\<close> to \<open>E\<close>, powers of 1000, the empty suffix for 1). The
  library also reads signs, fractions and exponents; those strings are outside the
  fragment, which answers \<open>None\<close> for them. The lemmas on the merge take the parser
  as a parameter and do not rest on this fragment.
\<close>

definition quantity_suffix :: "string \<Rightarrow> (rat \<times> Format) option" where
  "quantity_suffix u =
     (if u = ''Ki'' then Some (2 ^ 10, BinarySI)
      else if u = ''Mi'' then Some (2 ^ 20, BinarySI)
      else if u = ''Gi'' then Some (2 ^ 30, BinarySI)
      else if u = ''Ti'' then Some (2 ^ 40, BinarySI)
      else if u = ''Pi'' then Some (2 ^ 50, BinarySI)
      else if u = ''Ei'' then Some (2 ^ 60, BinarySI)
      else if u = ''n'' then Some (1 / 10 ^ 9, DecimalSI)
      else if u = ''u'' then Some (1 / 10 ^ 6, DecimalSI)
      else if u = ''m'' then Some (1 / 10 ^ 3, DecimalSI)
      else if u = [] then Some (1, DecimalSI)
      else if u = ''k'' then Some (10 ^ 3, DecimalSI)
      else if u = ''M'' then Some (10 ^ 6, DecimalSI)
      else if u = ''G'' then Some (10 ^ 9, DecimalSI)
      else if u = ''T'' then Some (10 ^ 12, DecimalSI)
      else if u = ''P'' then Some (10 ^ 15, DecimalSI)
      else if u = ''E'' then Some (10 ^ 18, DecimalSI)
      else None)"

definition ParseQuantity_fragment :: "string \<Rightarrow> Quantity option" where
  "ParseQuantity_fragment s =
     (case leadingInt 0 s of (v, rest) \<Rightarrow>
        if rest = s then None
        else (case quantity_suffix rest of
            None \<Rightarrow> None
          | Some (mult, fmt) \<Rightarrow> Some \<lparr>q_value = of_nat v * mult, q_format = fmt\<rparr>))"

text \<open>A quantity in thousandths, as \<open>MilliValue\<close> reads it (rounded up).\<close>

definition MilliValue :: "rat \<Rightarrow> int" where
  "MilliValue x = \<lceil>x * 1000\<rceil>"

definition request_named :: "ResourceName \<Rightarrow> Container \<Rightarrow> Quantity option" where
  "request_named name c = (case Requests (c_Resources c) of None \<Rightarrow> None | Some m \<Rightarrow> m name)"

definition limit_named :: "ResourceName \<Rightarrow> Container \<Rightarrow> Quantity option" where
  "limit_named name c = (case Limits (c_Resources c) of None \<Rightarrow> None | Some m \<Rightarrow> m name)"

definition is_string :: "dyn \<Rightarrow> bool" where
  "is_string v = (case v of DString s \<Rightarrow> True | _ \<Rightarrow> False)"

text \<open>The environment variables of a configuration are absent or all strings.\<close>

definition env_strings :: "config \<Rightarrow> bool" where
  "env_strings configs =
     (case cfg_get configs ''environmentVariables'' of
        DMap evs \<Rightarrow> list_all (\<lambda>kv. is_string (snd kv)) evs
      | _ \<Rightarrow> True)"

definition parses :: "(string \<Rightarrow> Duration option) \<Rightarrow> Pod \<Rightarrow> bool" where
  "parses ParseDuration pod =
     (label pod AENV_TTL \<noteq> [] \<and> ParseDuration (label pod AENV_TTL) \<noteq> None)"

definition sample_pod :: "string \<Rightarrow> string option \<Rightarrow> Time \<Rightarrow> string \<Rightarrow> Pod" where
  "sample_pod name ttl created phase =
     \<lparr>pod_Name = name, pod_Namespace = ''aenv'',
      pod_Labels = (case ttl of None \<Rightarrow> None | Some v \<Rightarrow> Some [AENV_TTL \<mapsto> v]),
      pod_ResourceVersion = [], pod_UID = [], pod_InitContainers = [],
      pod_Containers = [], pod_CreationTimestamp = created, pod_Phase = phase,
      pod_PodIP = []\<rparr>"

definition hour :: Duration where "hour = 3600000000000"

definition sample_container :: "string \<Rightarrow> ResourceRequirements \<Rightarrow> Container" where
  "sample_container name res =
     \<lparr>c_Name = name, c_Image = ''template:latest'',
      c_Env = [\<lparr>ev_Name = ''MODE'', ev_Value = ''template''\<rparr>], c_Args = [],
      c_Resources = res\<rparr>"

definition one_cpu_one_gib :: ResourceRequirements where
  "one_cpu_one_gib =
     (let m = [ResourceCPU \<mapsto> \<lparr>q_value = 1, q_format = DecimalSI\<rparr>,
               ResourceMemory \<mapsto> \<lparr>q_value = 2 ^ 30, q_format = BinarySI\<rparr>]
      in \<lparr>Requests = Some m, Limits = Some m\<rparr>)"

definition no_resources :: ResourceRequirements where
  "no_resources = \<lparr>Requests = None, Limits = None\<rparr>"

definition sample_template :: "Container list \<Rightarrow> Pod" where
  "sample_template cs =
     \<lparr>pod_Name = [], pod_Namespace = ''aenv'', pod_Labels = None,
      pod_ResourceVersion = ''41'', pod_UID = ''u-1'', pod_InitContainers = [],
      pod_Containers = cs, pod_CreationTimestamp = 0, pod_Phase = [], pod_PodIP = []\<rparr>"

definition single_template :: Pod where
  "single_template = sample_template [sample_container ''main'' one_cpu_one_gib]"

definition dual_template :: Pod where
  "dual_template =
     sample_template [sample_container ''main'' one_cpu_one_gib,
                      sample_container ''second'' one_cpu_one_gib]"

text \<open>
  A sample file system holding the single-container blueprint only, and a sample
  decoder that knows the two documents \<open>single\<close> and \<open>dual\<close>.
\<close>

definition sample_fs :: filesystem where
  "sample_fs = [templateFilePath SingleContainerTemplate \<mapsto> ''single'']"

definition sample_yaml :: "string \<Rightarrow> yaml_result" where
  "sample_yaml doc =
     (if doc = ''single'' then YamlPod single_template
      else if doc = ''dual'' then YamlPod dual_template
      else YamlError ''cannot unmarshal'')"

definition sample_rnd :: "nat \<Rightarrow> nat" where
  "sample_rnd k = 7 * k + 3"

definition sample_env :: "(string \<rightharpoonup> dyn) \<Rightarrow> AEnvHubEnv" where
  "sample_env dc =
     \<lparr>env_ID = [], env_Name = ''demo'', env_Description = [], env_Version = ''1.0.0'',
      env_Tags = [], env_CodeURL = [], env_Status = 0,
      env_Artifacts = [\<lparr>a_Id = [], a_Type = ''image'', a_Content = ''registry/demo:1''\<rparr>],
      env_BuildConfig = None, env_TestConfig = None, env_DeployConfig = Some dc,
      env_CreatedAt = 0, env_UpdatedAt = 0\<rparr>"

definition sample_backend_env :: "(string \<rightharpoonup> dyn) \<Rightarrow> Env" where
  "sample_backend_env dc =
     \<lparr>be_Name = ''demo'', be_Version = ''1.0.0'',
      be_Artifacts = [\<lparr>a_Id = [], a_Type = ''image'', a_Content = ''registry/demo:1''\<rparr>],
      be_DeployConfig = Some dc\<rparr>"

definition autoscale_2_4G :: config where
  "autoscale_2_4G =
     Some [''cpu'' \<mapsto> DString ''2'', ''memory'' \<mapsto> DString ''4G'',
           ''resource'' \<mapsto> DString ''autoscale'']"

definition fixed_2_4G :: config where
  "fixed_2_4G = Some [''cpu'' \<mapsto> DString ''2'', ''memory'' \<mapsto> DString ''4G'']"

definition sample_request :: "string \<Rightarrow> string \<Rightarrow> CreateEnvInstanceRequest" where
  "sample_request datasource ttl =
     \<lparr>rq_EnvName = ''demo@1.0.0'', rq_Datasource = datasource,
      rq_EnvironmentVariables = None, rq_Arguments = None, rq_TTL = ttl\<rparr>"

text \<open>
  A sample cluster for the cleanup pass: the world is the list of ids deleted so far,
  and the deletion of the instance \<open>c\<close> is refused.
\<close>

definition sample_delete :: "string \<Rightarrow> string list \<Rightarrow> (string + bool) \<times> string list" where
  "sample_delete podName w =
     (if podName = ''c'' then (Inl ''request failed with status'', w)
      else (Inr True, w @ [podName]))"

definition sample_create :: "Pod \<Rightarrow> k8s_error + Pod" where
  "sample_create pod = Inr (pod\<lparr>pod_Phase := ''Pending''\<rparr>)"

text \<open>The images of a pod's containers, in order.\<close>

definition container_images :: "Pod \<Rightarrow> string list" where
  "container_images pod = map c_Image (pod_Containers pod)"

section \<open>Properties of the scan for expired instances\<close>

text \<open>
  The scan returns, in order, the pods whose TTL label is non-empty and parses; the
  age of a pod plays no part in the result.
\<close>

lemma expired_loop_fst:
  "fst (expired_loop pd now items expired logs) = expired @ filter (parses pd) items"
  by (induction items arbitrary: expired logs)
     (auto simp: parses_def Let_def split: option.splits)

lemma expired_loop_logs:
  "\<exists>more. snd (expired_loop pd now items expired logs) = logs @ more"
proof (induction items arbitrary: expired logs)
  case Nil
  then show ?case by simp
next
  case (Cons a items)
  have step: "\<exists>more. snd (expired_loop pd now items e (logs @ [w])) = logs @ more" for e w
  proof -
    obtain more where "snd (expired_loop pd now items e (logs @ [w])) = (logs @ [w]) @ more"
      using Cons.IH by blast
    then show ?thesis by simp
  qed
  show ?case
    using Cons.IH step by (simp add: Let_def split: option.splits)
qed

lemma expired_loop_warns:
  "set logs \<subseteq> set (snd (expired_loop pd now items expired logs))"
proof -
  obtain more where "snd (expired_loop pd now items expired logs) = logs @ more"
    using expired_loop_logs by blast
  then show ?thesis by simp
qed

lemma expired_loop_warning:
  "pod \<in> set items \<Longrightarrow> label pod AENV_TTL \<noteq> [] \<Longrightarrow> pd (label pod AENV_TTL) = None \<Longrightarrow>
   TtlParseWarning (label pod AENV_TTL) (pod_Name pod)
     \<in> set (snd (expired_loop pd now items expired logs))"
proof (induction items arbitrary: expired logs)
  case Nil
  then show ?case by simp
next
  case (Cons a items)
  show ?case
  proof (cases "a = pod")
    case True
    have "TtlParseWarning (label pod AENV_TTL) (pod_Name pod)
            \<in> set (logs @ [TtlParseWarning (label pod AENV_TTL) (pod_Name pod)])" by simp
    then show ?thesis
      using True Cons.prems expired_loop_warns by (fastforce simp: Let_def)
  next
    case False
    then have "pod \<in> set items" using Cons.prems by simp
    then show ?thesis using Cons.IH Cons.prems
      by (simp add: Let_def split: option.splits)
  qed
qed

lemma ListExpiredPods_result:
  "fst (ListExpiredPods pd now (Inr items)) = Inr (filter (parses pd) items)"
  by (simp add: ListExpiredPods_def expired_loop_fst split: prod.splits)
     (metis expired_loop_fst fst_conv append_Nil)

lemma ListExpiredPods_logs:
  "snd (ListExpiredPods pd now (Inr items)) = snd (expired_loop pd now items [] [])"
  by (simp add: ListExpiredPods_def case_prod_beta)

lemma ParseDuration_fragment_1h: "ParseDuration_fragment ''1h'' = Some hour"
  by (simp add: ParseDuration_fragment_def digit_val_def unitMap_def maxDuration_def hour_def)

lemma ParseDuration_fragment_soon: "ParseDuration_fragment ''soon'' = None"
  by (simp add: ParseDuration_fragment_def digit_val_def unitMap_def maxDuration_def hour_def)


lemma label_sample_pod [simp]:
  "label (sample_pod name (Some v) created phase) AENV_TTL = v"
  "label (sample_pod name None created phase) k = []"
  by (simp_all add: label_def sample_pod_def)


text \<open>
  An instance whose label is empty leaves the scan as it is: neither the result nor
  the log changes.
\<close>

lemma expired_loop_append:
  "expired_loop pd now (xs @ ys) expired logs =
     (case expired_loop pd now xs expired logs of
        (expired', logs') \<Rightarrow> expired_loop pd now ys expired' logs')"
  by (induction xs arbitrary: expired logs) (simp_all add: Let_def split: option.splits)

lemma expired_loop_empty_label:
  assumes "label pod AENV_TTL = []"
  shows "expired_loop pd now (xs @ pod # ys) expired logs
           = expired_loop pd now (xs @ ys) expired logs"
proof -
  have "expired_loop pd now (pod # ys) e l = expired_loop pd now ys e l" for e l
    using assms by simp
  then show ?thesis
    by (simp only: expired_loop_append split: prod.splits)
qed

text \<open>
  Claim C7, as the code has it. A cached instance whose TTL label does not parse is
  never in the result of \<open>ListExpiredPods\<close>; the scan does not end in an error and
  the other instances are scanned as if the instance were not there. A label that
  is not empty leaves a warning in the log; a label that is empty is skipped before
  the parse and leaves the log as it is.
\<close>

theorem unparsable_ttl_skipped:
  assumes "ParseDuration (label pod AENV_TTL) = None"
  shows "fst (ListExpiredPods ParseDuration now (Inr (xs @ pod # ys)))
           = fst (ListExpiredPods ParseDuration now (Inr (xs @ ys)))
       \<and> (\<exists>expired. fst (ListExpiredPods ParseDuration now (Inr (xs @ pod # ys))) = Inr expired
             \<and> pod \<notin> set expired)
       \<and> (label pod AENV_TTL \<noteq> [] \<longrightarrow>
             TtlParseWarning (label pod AENV_TTL) (pod_Name pod)
               \<in> set (snd (ListExpiredPods ParseDuration now (Inr (xs @ pod # ys)))))
       \<and> (label pod AENV_TTL = [] \<longrightarrow>
             snd (ListExpiredPods ParseDuration now (Inr (xs @ pod # ys)))
               = snd (ListExpiredPods ParseDuration now (Inr (xs @ ys))))"
proof -
  have np: "\<not> parses ParseDuration pod"
    using assms by (simp add: parses_def)
  have same: "filter (parses ParseDuration) (xs @ pod # ys) = filter (parses ParseDuration) (xs @ ys)"
    using np by simp
  have "pod \<notin> set (filter (parses ParseDuration) (xs @ pod # ys))"
    using np by simp
  moreover have "label pod AENV_TTL \<noteq> [] \<Longrightarrow>
      TtlParseWarning (label pod AENV_TTL) (pod_Name pod)
        \<in> set (snd (ListExpiredPods ParseDuration now (Inr (xs @ pod # ys))))"
    using expired_loop_warning [of pod "xs @ pod # ys" ParseDuration now "[]" "[]"] assms
    by (simp add: ListExpiredPods_logs)
  moreover have "label pod AENV_TTL = [] \<Longrightarrow>
      snd (ListExpiredPods ParseDuration now (Inr (xs @ pod # ys)))
        = snd (ListExpiredPods ParseDuration now (Inr (xs @ ys)))"
    using expired_loop_empty_label [of pod ParseDuration now xs ys "[]" "[]"]
    by (simp add: ListExpiredPods_logs)
  ultimately show ?thesis
    using same by (simp add: ListExpiredPods_result)
qed

text \<open>
  The instance \<open>b\<close> with the label \<open>soon\<close>, and the instance \<open>e\<close> with the empty
  label, each next to an instance with the label \<open>1h\<close>.
\<close>

theorem unparsable_ttl_skipped_witness:
  "ParseDuration_fragment (label (sample_pod ''b'' (Some ''soon'') 0 ''Running'') AENV_TTL) = None
   \<and> label (sample_pod ''b'' (Some ''soon'') 0 ''Running'') AENV_TTL \<noteq> []
   \<and> fst (ListExpiredPods ParseDuration_fragment (2 * hour)
        (Inr ([sample_pod ''a'' (Some ''1h'') 0 ''Running'']
              @ sample_pod ''b'' (Some ''soon'') 0 ''Running'' # [])))
       = Inr [sample_pod ''a'' (Some ''1h'') 0 ''Running'']
   \<and> TtlParseWarning ''soon'' ''b''
        \<in> set (snd (ListExpiredPods ParseDuration_fragment (2 * hour)
            (Inr ([sample_pod ''a'' (Some ''1h'') 0 ''Running'']
              @ sample_pod ''b'' (Some ''soon'') 0 ''Running'' # []))))
   \<and> ParseDuration_fragment (label (sample_pod ''e'' (Some []) 0 ''Running'') AENV_TTL) = None
   \<and> label (sample_pod ''e'' (Some []) 0 ''Running'') AENV_TTL = []
   \<and> ListExpiredPods ParseDuration_fragment (2 * hour)
        (Inr ([sample_pod ''a'' (Some ''1h'') 0 ''Running'']
              @ sample_pod ''e'' (Some []) 0 ''Running'' # []))
       = ListExpiredPods ParseDuration_fragment (2 * hour)
           (Inr ([sample_pod ''a'' (Some ''1h'') 0 ''Running''] @ []))"
proof -
  have h: "ParseDuration_fragment (label (sample_pod ''b'' (Some ''soon'') 0 ''Running'') AENV_TTL) = None"
    by (simp add: ParseDuration_fragment_soon)
  have n: "pod_Name (sample_pod ''b'' (Some ''soon'') 0 ''Running'') = ''b''"
    by (simp add: sample_pod_def)
  have e: "ParseDuration_fragment (label (sample_pod ''e'' (Some []) 0 ''Running'') AENV_TTL) = None"
    by (simp add: ParseDuration_fragment_def)
  have first: "fst (ListExpiredPods ParseDuration_fragment (2 * hour)
        (Inr ([sample_pod ''a'' (Some ''1h'') 0 ''Running'']
              @ sample_pod ''b'' (Some ''soon'') 0 ''Running'' # [])))
       = Inr [sample_pod ''a'' (Some ''1h'') 0 ''Running'']
     \<and> TtlParseWarning ''soon'' ''b''
        \<in> set (snd (ListExpiredPods ParseDuration_fragment (2 * hour)
            (Inr ([sample_pod ''a'' (Some ''1h'') 0 ''Running'']
              @ sample_pod ''b'' (Some ''soon'') 0 ''Running'' # []))))"
    using unparsable_ttl_skipped [of ParseDuration_fragment
            "sample_pod ''b'' (Some ''soon'') 0 ''Running''" "2 * hour"
            "[sample_pod ''a'' (Some ''1h'') 0 ''Running'']" "[]"] h n
    by (simp add: ListExpiredPods_result parses_def ParseDuration_fragment_1h)
  have second: "ListExpiredPods ParseDuration_fragment (2 * hour)
        (Inr ([sample_pod ''a'' (Some ''1h'') 0 ''Running'']
              @ sample_pod ''e'' (Some []) 0 ''Running'' # []))
       = ListExpiredPods ParseDuration_fragment (2 * hour)
           (Inr ([sample_pod ''a'' (Some ''1h'') 0 ''Running''] @ []))"
    using unparsable_ttl_skipped [of ParseDuration_fragment
            "sample_pod ''e'' (Some []) 0 ''Running''" "2 * hour"
            "[sample_pod ''a'' (Some ''1h'') 0 ''Running'']" "[]"] e
    by (simp add: prod_eq_iff)
  show ?thesis
    using h e first second by simp
qed

text \<open>
  Claim C7, as stated, has every instance whose label does not parse skipped with a
  warning. The instance \<open>e\<close> carries the TTL label with the empty value, which does
  not parse; the scan leaves it out and writes no log line.
\<close>

theorem empty_label_skipped_silently:
  "ParseDuration_fragment (label (sample_pod ''e'' (Some []) 0 ''Running'') AENV_TTL) = None
   \<and> ListExpiredPods ParseDuration_fragment (2 * hour)
        (Inr [sample_pod ''e'' (Some []) 0 ''Running'']) = (Inr [], [])
   \<and> TtlParseWarning (label (sample_pod ''e'' (Some []) 0 ''Running'') AENV_TTL)
          (pod_Name (sample_pod ''e'' (Some []) 0 ''Running''))
        \<notin> set (snd (ListExpiredPods ParseDuration_fragment (2 * hour)
              (Inr [sample_pod ''e'' (Some []) 0 ''Running''])))"
  by (simp add: ParseDuration_fragment_def ListExpiredPods_def)

text \<open>
  Claim C1, on the code. The claim is that the result holds an instance with a
  parsed TTL \<open>d\<close> and creation time \<open>t0\<close> exactly when \<open>t - t0 > d\<close>. The
  instance \<open>b\<close>, created at time 0 with the label \<open>1h\<close>, is in the result of a scan
  one second later.
\<close>

theorem ListExpiredPods_lists_unexpired:
  "fst (ListExpiredPods ParseDuration_fragment 1000000000
          (Inr [sample_pod ''b'' (Some ''1h'') 0 ''Running'']))
     = Inr [sample_pod ''b'' (Some ''1h'') 0 ''Running'']
   \<and> ParseDuration_fragment (label (sample_pod ''b'' (Some ''1h'') 0 ''Running'') AENV_TTL)
       = Some 3600000000000
   \<and> \<not> Sub 1000000000 (pod_CreationTimestamp (sample_pod ''b'' (Some ''1h'') 0 ''Running''))
         > 3600000000000"
  by (simp add: ListExpiredPods_def ParseDuration_fragment_1h hour_def Sub_def maxDuration_def minDuration_def
        sample_pod_def label_def)

section \<open>Properties of the error translation\<close>

text \<open>
  Where a cluster error reaches the reply of a CRUD handler, the reply is the one
  \<open>handleK8sAPiError\<close> builds.
\<close>

lemma createPod_cluster_error:
  "createPod_pod fs yaml pq rnd aenv = Inr pod \<Longrightarrow> create pod = Inl err \<Longrightarrow>
   createPod fs yaml pq rnd create (Inr aenv) = Inr (handleK8sAPiError err ''failed to create pod'')"
  by (simp add: createPod_def)

lemma getPod_cluster_error:
  "podName \<noteq> [] \<Longrightarrow> get podName = Inl err \<Longrightarrow>
   getPod None get podName = handleK8sAPiError err ''failed to get pod''"
  by (simp add: getPod_def)

lemma deletePod_cluster_error:
  "podName \<noteq> [] \<Longrightarrow> delete podName = Some err \<Longrightarrow>
   deletePod delete podName = handleK8sAPiError err ''failed to delete Pod''"
  by (simp add: deletePod_def)

text \<open>
  Claim C8, as the code has it. The status of the reply to a cluster error: the codes
  200, 201 and 202 give 200; the codes 400, 401, 403, 404 (not found) and 409
  (conflict) are passed on unchanged; every other code of a status error, and every
  error that is not a status error, gives 500.
\<close>

theorem handleK8sAPiError_status:
  "rp_status (handleK8sAPiError err action) =
     (case err of
        StatusError code message \<Rightarrow>
          (if code \<in> {200, 201, 202} then 200
           else if code \<in> {400, 401, 403, 404, 409} then uint code
           else 500)
      | OtherError e \<Rightarrow> 500)"
  by (cases err) (auto simp: handleK8sAPiError_def httpStatusFromK8s_def)

text \<open>
  Claim C8, as stated, has every error other than not-found and conflict give 500. A
  status error with the code 403 gives 403.
\<close>

theorem forbidden_is_not_500:
  "rp_status (handleK8sAPiError (StatusError 403 ''forbidden'') ''failed to get pod'') = 403
   \<and> rp_status (handleK8sAPiError (StatusError 403 ''forbidden'') ''failed to get pod'') \<noteq> 500"
  by (simp add: handleK8sAPiError_def httpStatusFromK8s_def)

section \<open>Properties of the cleanup pass\<close>

text \<open>
  A pass whose listing succeeded returns no error, and it hands to \<open>DeletePod\<close>
  exactly the listed instances whose status is not \<open>Terminated\<close>, in order,
  whatever the deletions answer.
\<close>

lemma cleanup_loop_attempted:
  "attempted (cleanup_loop delete xs st) =
     attempted st @ map ei_ID (filter (\<lambda>i. ei_Status i \<noteq> ''Terminated'') xs)"
  by (induction xs arbitrary: st) (auto split: prod.splits sum.splits)

lemma Cleanup_attempted:
  "attempted (snd (Cleanup delete (Inr xs) w)) =
     map ei_ID (filter (\<lambda>i. ei_Status i \<noteq> ''Terminated'') xs)"
  by (cases xs) (simp_all add: Cleanup_def Let_def cleanup_loop_attempted del: cleanup_loop.simps)

lemma Cleanup_no_error: "fst (Cleanup delete (Inr xs) w) = None"
  by (simp add: Cleanup_def Let_def)

lemma FilterPods_listPod:
  "FilterPods (Inr (listPod pd now (Inr items) ''expired'')) =
     Inr (map (\<lambda>pod. \<lparr>ei_ID = pod_Name pod, ei_Status = pod_Phase pod, ei_IP = [],
                        ei_TTL = label pod AENV_TTL\<rparr>) (filter (parses pd) items))"
  by (simp add: FilterPods_def listPod_def ListExpiredPods_result comp_def)

text \<open>
  Claim C2, on the code. The claim is that a pass over \<open>a\<close> (terminated), \<open>b\<close>
  (running, TTL not elapsed) and \<open>c\<close> (running, TTL elapsed) attempts the deletion
  of \<open>c\<close> only and, when that deletion fails, counts 0. With the controller's
  listing as the source of the pass, both \<open>b\<close> and \<open>c\<close> are attempted and the
  count is 1: the instance \<open>b\<close>, one second old with a TTL of one hour, is listed
  and deleted.
\<close>

theorem Cleanup_deletes_unexpired:
  "Cleanup sample_delete
     (FilterPods (Inr (listPod ParseDuration_fragment (2 * hour)
        (Inr [sample_pod ''a'' (Some ''1h'') 0 ''Terminated'',
              sample_pod ''b'' (Some ''1h'') (2 * hour - 1000000000) ''Running'',
              sample_pod ''c'' (Some ''1h'') 0 ''Running'']) ''expired''))) []
   = (None, \<lparr>deletedCount = 1, attempted = [''b'', ''c''], warned = [''c''], world = [''b'']\<rparr>)
   \<and> \<not> Sub (2 * hour) (pod_CreationTimestamp (sample_pod ''b'' (Some ''1h'') (2 * hour - 1000000000) ''Running''))
         > hour"
proof -
  have names: "pod_Name (sample_pod n t c p) = n" "pod_Phase (sample_pod n t c p) = p"
    "pod_CreationTimestamp (sample_pod n t c p) = c" for n t c p
    by (simp_all add: sample_pod_def)
  have age: "\<not> Sub (2 * hour) (2 * hour - 1000000000) > hour"
    by (simp add: Sub_def hour_def maxDuration_def minDuration_def)
  show ?thesis
    using age
    by (simp add: FilterPods_listPod parses_def ParseDuration_fragment_1h names
          Cleanup_def sample_delete_def)
qed

section \<open>Properties of the environment merge\<close>

text \<open>
  The merge of \<open>MergePod\<close> keeps the names of a container's variables distinct.
\<close>

lemma set_env_var_names:
  "set_env_var k v env = Some env' \<Longrightarrow> map ev_Name env' = map ev_Name env"
  by (induction env arbitrary: env') (auto split: if_splits)

lemma set_env_var_None:
  "set_env_var k v env = None \<longleftrightarrow> k \<notin> set (map ev_Name env)"
  by (induction env) auto

lemma merge_env_entries_distinct:
  "distinct (map ev_Name env) \<Longrightarrow> distinct (map ev_Name (merge_env_entries environs env))"
proof (induction environs arbitrary: env)
  case Nil
  then show ?case by simp
next
  case (Cons kv environs)
  obtain k v where kv: "kv = (k, v)" by (cases kv)
  show ?case
  proof (cases "set_env_var k v env")
    case None
    then have "k \<notin> set (map ev_Name env)" by (simp add: set_env_var_None)
    then have "distinct (map ev_Name (env @ [\<lparr>ev_Name = k, ev_Value = v\<rparr>]))"
      using Cons.prems by simp
    then show ?thesis using Cons.IH None kv by simp
  next
    case (Some env')
    then have "distinct (map ev_Name env')"
      using Cons.prems set_env_var_names by metis
    then show ?thesis using Cons.IH Some kv by simp
  qed
qed

text \<open>
  Claim C4, on the code. The claim is that the merged list has no name twice, a
  variable of the definition overriding the template's entry of the same name. On
  the create path \<open>applyConfig\<close> appends every variable of the definition: a
  template with \<open>MODE\<close> and a definition with \<open>MODE\<close> give a list with \<open>MODE\<close>
  twice. The merge of \<open>MergePod\<close> on the same input overrides the entry.
\<close>

theorem applyConfig_duplicates_env:
  "map_sum id c_Env
     (applyConfig ParseQuantity_fragment
        (Some [''environmentVariables'' \<mapsto> DMap [(''MODE'', DString ''definition'')]])
        (sample_container ''main'' one_cpu_one_gib))
     = Inr [\<lparr>ev_Name = ''MODE'', ev_Value = ''template''\<rparr>,
            \<lparr>ev_Name = ''MODE'', ev_Value = ''definition''\<rparr>]
   \<and> merge_env_entries [(''MODE'', ''definition'')]
        (c_Env (sample_container ''main'' one_cpu_one_gib))
     = [\<lparr>ev_Name = ''MODE'', ev_Value = ''definition''\<rparr>]"
  by (simp add: applyConfig_def cfg_get_def cfg_lookup_def sample_container_def)

section \<open>Properties of the resource merge\<close>

text \<open>
  \<open>applyConfig\<close> step by step: the environment variables, then either the container
  with its resources as they were, or the four resets.
\<close>

lemma append_env_vars_strings:
  "list_all (\<lambda>kv. is_string (snd kv)) evs \<Longrightarrow> \<exists>env'. append_env_vars evs env = Inr env'"
  by (induction evs env rule: append_env_vars.induct)
     (auto simp: is_string_def split: dyn.splits)

lemma append_env_vars_panic:
  "append_env_vars evs env = Inl p \<Longrightarrow> p = TypeAssertion ''string''"
  by (induction evs env rule: append_env_vars.induct) (auto split: dyn.splits)

lemma env_step_strings:
  "env_strings configs \<Longrightarrow>
   \<exists>env'. (case cfg_get configs ''environmentVariables'' of
             DMap evs \<Rightarrow> append_env_vars evs env
           | _ \<Rightarrow> Inr env) = Inr env'"
  using append_env_vars_strings
  by (auto simp: env_strings_def split: dyn.splits)

lemma env_step_panic:
  "(case cfg_get configs ''environmentVariables'' of
      DMap evs \<Rightarrow> append_env_vars evs env
    | _ \<Rightarrow> Inr env) = Inl p \<Longrightarrow> p = TypeAssertion ''string''"
  using append_env_vars_panic by (auto split: dyn.splits)

lemma quantity_of_assign:
  "quantity_of (Some (m(name \<mapsto> q))) name' = (if name' = name then q_value q else quantity_of (Some m) name')"
  by (simp add: quantity_of_def)

lemma reset_quantity_Some:
  "\<exists>m'. reset_quantity (Some m) name q = Inr (Some m')
        \<and> quantity_of (Some m') name = q_value q
        \<and> (\<forall>name'. name' \<noteq> name \<longrightarrow> quantity_of (Some m') name' = quantity_of (Some m) name')"
  by (simp add: reset_quantity_def assign_quantity_def quantity_of_def)

lemma resource_names_distinct: "ResourceCPU \<noteq> ResourceMemory"
  by (simp add: ResourceCPU_def ResourceMemory_def)

lemma apply_resources_maps:
  assumes "Requests (c_Resources c) = Some rq" "Limits (c_Resources c) = Some lm"
  shows "\<exists>c'. apply_resources expectCpu expectMemory c = Inr c'
     \<and> quantity_of (Requests (c_Resources c')) ResourceCPU = q_value expectCpu
     \<and> quantity_of (Requests (c_Resources c')) ResourceMemory = q_value expectMemory
     \<and> quantity_of (Limits (c_Resources c')) ResourceCPU = q_value expectCpu
     \<and> quantity_of (Limits (c_Resources c')) ResourceMemory = q_value expectMemory"
proof -
  obtain r1 where r1: "reset_quantity (Some rq) ResourceCPU expectCpu = Inr (Some r1)"
      "quantity_of (Some r1) ResourceCPU = q_value expectCpu"
    using reset_quantity_Some [of rq ResourceCPU expectCpu] by blast
  obtain r2 where r2: "reset_quantity (Some r1) ResourceMemory expectMemory = Inr (Some r2)"
      "quantity_of (Some r2) ResourceMemory = q_value expectMemory"
      "quantity_of (Some r2) ResourceCPU = quantity_of (Some r1) ResourceCPU"
    using reset_quantity_Some [of r1 ResourceMemory expectMemory] resource_names_distinct
    by blast
  obtain l1 where l1: "reset_quantity (Some lm) ResourceCPU expectCpu = Inr (Some l1)"
      "quantity_of (Some l1) ResourceCPU = q_value expectCpu"
    using reset_quantity_Some [of lm ResourceCPU expectCpu] by blast
  obtain l2 where l2: "reset_quantity (Some l1) ResourceMemory expectMemory = Inr (Some l2)"
      "quantity_of (Some l2) ResourceMemory = q_value expectMemory"
      "quantity_of (Some l2) ResourceCPU = quantity_of (Some l1) ResourceCPU"
    using reset_quantity_Some [of l1 ResourceMemory expectMemory] resource_names_distinct
    by blast
  show ?thesis
    using assms r1 r2 l1 l2 by (simp add: apply_resources_def)
qed

lemma apply_resources_image:
  "apply_resources expectCpu expectMemory c = Inr c' \<Longrightarrow> c_Image c' = c_Image c"
  by (auto simp: apply_resources_def Let_def split: sum.splits)

lemma applyConfig_cases:
  assumes "applyConfig pq configs c = Inr c'"
  shows "\<exists>env args. c' = c\<lparr>c_Env := env, c_Args := args\<rparr>
           \<or> (cfg_get configs ''resource'' = DString ''autoscale''
              \<and> (\<exists>qc qm. apply_resources qc qm (c\<lparr>c_Env := env, c_Args := args\<rparr>) = Inr c'))"
proof -
  let ?E = "(case cfg_get configs ''environmentVariables'' of
               DMap evs \<Rightarrow> append_env_vars evs (c_Env c)
             | _ \<Rightarrow> Inr (c_Env c))"
  obtain env where env: "?E = Inr env"
    using assms by (cases ?E) (simp_all add: applyConfig_def)
  define args where "args = (case cfg_get configs ''arguments'' of
                         DStrings arguments \<Rightarrow> c_Args c @ arguments
                       | _ \<Rightarrow> c_Args c)"
  define c1 where "c1 = c\<lparr>c_Env := env, c_Args := args\<rparr>"
  let ?T = "(case cfg_get configs ''cpu'' of
        DString strCpu \<Rightarrow>
          (case cfg_get configs ''memory'' of
             DString strMemory \<Rightarrow>
               (case pq strCpu of
                  None \<Rightarrow> Inr c1
                | Some expectCpu \<Rightarrow>
                    (case pq strMemory of
                       None \<Rightarrow> Inr c1
                     | Some expectMemory \<Rightarrow> apply_resources expectCpu expectMemory c1))
           | _ \<Rightarrow> Inl (TypeAssertion ''string''))
      | _ \<Rightarrow> Inl (TypeAssertion ''string''))"
  have unfold: "applyConfig pq configs c =
      (if cfg_get configs ''resource'' \<noteq> DString ''autoscale'' then Inr c1 else ?T)"
    unfolding applyConfig_def Let_def c1_def args_def using env by simp
  show ?thesis
  proof (cases "cfg_get configs ''resource'' \<noteq> DString ''autoscale''")
    case True
    then have "c' = c1" using assms unfold by simp
    then show ?thesis unfolding c1_def by blast
  next
    case False
    then have T: "?T = Inr c'" using assms unfold by simp
    obtain strCpu where cpu: "cfg_get configs ''cpu'' = DString strCpu"
      using T by (cases "cfg_get configs ''cpu''") simp_all
    obtain strMemory where mem: "cfg_get configs ''memory'' = DString strMemory"
      using T cpu by (cases "cfg_get configs ''memory''") simp_all
    have "c' = c1 \<or> (\<exists>qc qm. apply_resources qc qm c1 = Inr c')"
      using T cpu mem by (auto split: option.splits)
    then show ?thesis using False unfolding c1_def by blast
  qed
qed

lemma applyConfig_image:
  assumes "applyConfig pq configs c = Inr c'"
  shows "c_Image c' = c_Image c"
proof -
  obtain env args where
    "c' = c\<lparr>c_Env := env, c_Args := args\<rparr>
       \<or> (\<exists>qc qm. apply_resources qc qm (c\<lparr>c_Env := env, c_Args := args\<rparr>) = Inr c')"
    using applyConfig_cases [OF assms] by blast
  then show ?thesis
    using apply_resources_image by fastforce
qed

lemma applyConfig_not_autoscale:
  assumes "cfg_get configs ''resource'' \<noteq> DString ''autoscale''"
  shows "applyConfig pq configs c = Inr c' \<Longrightarrow> c_Resources c' = c_Resources c"
    and "env_strings configs \<Longrightarrow> \<exists>c'. applyConfig pq configs c = Inr c'"
proof -
  assume "applyConfig pq configs c = Inr c'"
  then obtain env args where "c' = c\<lparr>c_Env := env, c_Args := args\<rparr>"
    using applyConfig_cases assms by blast
  then show "c_Resources c' = c_Resources c" by simp
next
  assume "env_strings configs"
  then obtain env' where "(case cfg_get configs ''environmentVariables'' of
             DMap evs \<Rightarrow> append_env_vars evs (c_Env c)
           | _ \<Rightarrow> Inr (c_Env c)) = Inr env'"
    using env_step_strings by blast
  then show "\<exists>c'. applyConfig pq configs c = Inr c'"
    using assms by (simp add: applyConfig_def Let_def)
qed

lemma ParseQuantity_fragment_2:
  "ParseQuantity_fragment ''2'' = Some \<lparr>q_value = 2, q_format = DecimalSI\<rparr>"
  by (simp add: ParseQuantity_fragment_def digit_val_def quantity_suffix_def)

lemma ParseQuantity_fragment_4G:
  "ParseQuantity_fragment ''4G'' = Some \<lparr>q_value = 4000000000, q_format = DecimalSI\<rparr>"
  by (simp add: ParseQuantity_fragment_def digit_val_def quantity_suffix_def)

lemma applyConfig_autoscale:
  assumes "cfg_get configs ''resource'' = DString ''autoscale''"
    and "cfg_get configs ''cpu'' = DString strCpu"
    and "cfg_get configs ''memory'' = DString strMemory"
    and "pq strCpu = Some expectCpu" and "pq strMemory = Some expectMemory"
    and "env_strings configs"
    and "Requests (c_Resources c) = Some rq" and "Limits (c_Resources c) = Some lm"
  shows "\<exists>c'. applyConfig pq configs c = Inr c'
     \<and> quantity_of (Requests (c_Resources c')) ResourceCPU = q_value expectCpu
     \<and> quantity_of (Requests (c_Resources c')) ResourceMemory = q_value expectMemory
     \<and> quantity_of (Limits (c_Resources c')) ResourceCPU = q_value expectCpu
     \<and> quantity_of (Limits (c_Resources c')) ResourceMemory = q_value expectMemory"
proof -
  obtain env' where env': "(case cfg_get configs ''environmentVariables'' of
             DMap evs \<Rightarrow> append_env_vars evs (c_Env c)
           | _ \<Rightarrow> Inr (c_Env c)) = Inr env'"
    using env_step_strings [OF assms(6)] by blast
  define args where "args = (case cfg_get configs ''arguments'' of
                         DStrings arguments \<Rightarrow> c_Args c @ arguments
                       | _ \<Rightarrow> c_Args c)"
  define c1 where "c1 = c\<lparr>c_Env := env', c_Args := args\<rparr>"
  have res: "Requests (c_Resources c1) = Some rq" "Limits (c_Resources c1) = Some lm"
    using assms(7,8) by (simp_all add: c1_def)
  have "applyConfig pq configs c = apply_resources expectCpu expectMemory c1"
    unfolding applyConfig_def Let_def c1_def args_def using assms(1-5) env' by simp
  then show ?thesis
    using apply_resources_maps [OF res, of expectCpu expectMemory] by simp
qed

text \<open>
  Claim C3, as the code has it. With \<open>cpu = 2\<close>, \<open>memory = 4G\<close> and
  \<open>resource = autoscale\<close>, on a container that has a request map and a limit map
  and with environment variables that are strings, the merge returns a container
  whose CPU request and limit are 2000 thousandths and whose memory request and
  limit are \<open>4 * 10^9\<close> bytes, the decimal reading of \<open>4G\<close>. With a resource
  value other than \<open>autoscale\<close>, the merge leaves the container's requests and
  limits as they were, whatever the parser and the other entries.
\<close>

theorem applyConfig_resources:
  "(cfg_get configs ''resource'' = DString ''autoscale''
      \<and> cfg_get configs ''cpu'' = DString ''2'' \<and> cfg_get configs ''memory'' = DString ''4G''
      \<and> env_strings configs
      \<and> Requests (c_Resources c) \<noteq> None \<and> Limits (c_Resources c) \<noteq> None
    \<longrightarrow> (\<exists>c'. applyConfig ParseQuantity_fragment configs c = Inr c'
          \<and> MilliValue (quantity_of (Requests (c_Resources c')) ResourceCPU) = 2000
          \<and> MilliValue (quantity_of (Limits (c_Resources c')) ResourceCPU) = 2000
          \<and> quantity_of (Requests (c_Resources c')) ResourceMemory = 4 * 10 ^ 9
          \<and> quantity_of (Limits (c_Resources c')) ResourceMemory = 4 * 10 ^ 9))
   \<and> (cfg_get configs2 ''resource'' \<noteq> DString ''autoscale''
    \<longrightarrow> (\<forall>c2'. applyConfig ParseQuantity configs2 c2 = Inr c2'
                 \<longrightarrow> c_Resources c2' = c_Resources c2)
        \<and> (env_strings configs2 \<longrightarrow> (\<exists>c2'. applyConfig ParseQuantity configs2 c2 = Inr c2')))"
proof (intro conjI impI allI)
  assume h: "cfg_get configs ''resource'' = DString ''autoscale''
      \<and> cfg_get configs ''cpu'' = DString ''2'' \<and> cfg_get configs ''memory'' = DString ''4G''
      \<and> env_strings configs
      \<and> Requests (c_Resources c) \<noteq> None \<and> Limits (c_Resources c) \<noteq> None"
  then obtain rq lm where maps: "Requests (c_Resources c) = Some rq" "Limits (c_Resources c) = Some lm"
    by auto
  obtain c' where c': "applyConfig ParseQuantity_fragment configs c = Inr c'"
     "quantity_of (Requests (c_Resources c')) ResourceCPU = 2"
     "quantity_of (Requests (c_Resources c')) ResourceMemory = 4000000000"
     "quantity_of (Limits (c_Resources c')) ResourceCPU = 2"
     "quantity_of (Limits (c_Resources c')) ResourceMemory = 4000000000"
    using applyConfig_autoscale [of configs "''2''" "''4G''" ParseQuantity_fragment
        "\<lparr>q_value = 2, q_format = DecimalSI\<rparr>"
        "\<lparr>q_value = 4000000000, q_format = DecimalSI\<rparr>" c rq lm]
      h maps ParseQuantity_fragment_2 ParseQuantity_fragment_4G by auto
  show "\<exists>c'. applyConfig ParseQuantity_fragment configs c = Inr c'
          \<and> MilliValue (quantity_of (Requests (c_Resources c')) ResourceCPU) = 2000
          \<and> MilliValue (quantity_of (Limits (c_Resources c')) ResourceCPU) = 2000
          \<and> quantity_of (Requests (c_Resources c')) ResourceMemory = 4 * 10 ^ 9
          \<and> quantity_of (Limits (c_Resources c')) ResourceMemory = 4 * 10 ^ 9"
    using c' by (intro exI [of _ c']) (simp add: MilliValue_def)
next
  fix c2'
  assume "cfg_get configs2 ''resource'' \<noteq> DString ''autoscale''"
    and "applyConfig ParseQuantity configs2 c2 = Inr c2'"
  then show "c_Resources c2' = c_Resources c2"
    using applyConfig_not_autoscale(1) by blast
next
  assume "cfg_get configs2 ''resource'' \<noteq> DString ''autoscale''" and "env_strings configs2"
  then show "\<exists>c2'. applyConfig ParseQuantity configs2 c2 = Inr c2'"
    using applyConfig_not_autoscale(2) by blast
qed


text \<open>The two sample configurations on the sample container.\<close>

theorem applyConfig_resources_witness:
  "cfg_get autoscale_2_4G ''resource'' = DString ''autoscale''
   \<and> cfg_get autoscale_2_4G ''cpu'' = DString ''2''
   \<and> cfg_get autoscale_2_4G ''memory'' = DString ''4G''
   \<and> env_strings autoscale_2_4G
   \<and> Requests (c_Resources (sample_container ''main'' one_cpu_one_gib)) \<noteq> None
   \<and> Limits (c_Resources (sample_container ''main'' one_cpu_one_gib)) \<noteq> None
   \<and> (\<exists>c'. applyConfig ParseQuantity_fragment autoscale_2_4G
               (sample_container ''main'' one_cpu_one_gib) = Inr c'
          \<and> MilliValue (quantity_of (Requests (c_Resources c')) ResourceCPU) = 2000
          \<and> MilliValue (quantity_of (Limits (c_Resources c')) ResourceCPU) = 2000
          \<and> quantity_of (Requests (c_Resources c')) ResourceMemory = 4 * 10 ^ 9
          \<and> quantity_of (Limits (c_Resources c')) ResourceMemory = 4 * 10 ^ 9)
   \<and> cfg_get fixed_2_4G ''resource'' \<noteq> DString ''autoscale''
   \<and> env_strings fixed_2_4G
   \<and> (\<exists>c2'. applyConfig ParseQuantity_fragment fixed_2_4G
                (sample_container ''main'' one_cpu_one_gib) = Inr c2'
          \<and> c_Resources c2' = one_cpu_one_gib)"
proof -
  have a: "cfg_get autoscale_2_4G ''resource'' = DString ''autoscale''"
      "cfg_get autoscale_2_4G ''cpu'' = DString ''2''"
      "cfg_get autoscale_2_4G ''memory'' = DString ''4G''"
      "env_strings autoscale_2_4G"
    by (simp_all add: autoscale_2_4G_def cfg_get_def cfg_lookup_def env_strings_def)
  have m: "Requests (c_Resources (sample_container ''main'' one_cpu_one_gib)) \<noteq> None"
      "Limits (c_Resources (sample_container ''main'' one_cpu_one_gib)) \<noteq> None"
    by (simp_all add: sample_container_def one_cpu_one_gib_def Let_def)
  have b: "cfg_get fixed_2_4G ''resource'' \<noteq> DString ''autoscale''"
      "env_strings fixed_2_4G"
    by (simp_all add: fixed_2_4G_def cfg_get_def cfg_lookup_def env_strings_def)
  have r: "c_Resources (sample_container ''main'' one_cpu_one_gib) = one_cpu_one_gib"
    by (simp add: sample_container_def)
  show ?thesis
    using a m b r
      applyConfig_resources [of autoscale_2_4G "sample_container ''main'' one_cpu_one_gib"
        fixed_2_4G ParseQuantity_fragment "sample_container ''main'' one_cpu_one_gib"]
    by metis
qed

text \<open>
  Claim C3, as stated, has the memory request and limit equal 4 gibibytes as a
  binary quantity. The merged entries are the decimal quantity \<open>4 * 10^9\<close>.
\<close>

theorem applyConfig_4G_is_decimal:
  "map_sum id (request_named ResourceMemory)
     (applyConfig ParseQuantity_fragment autoscale_2_4G
        (sample_container ''main'' one_cpu_one_gib))
     = Inr (Some \<lparr>q_value = 4000000000, q_format = DecimalSI\<rparr>)
   \<and> map_sum id (limit_named ResourceMemory)
     (applyConfig ParseQuantity_fragment autoscale_2_4G
        (sample_container ''main'' one_cpu_one_gib))
     = Inr (Some \<lparr>q_value = 4000000000, q_format = DecimalSI\<rparr>)
   \<and> \<lparr>q_value = 4000000000, q_format = DecimalSI\<rparr>
       \<noteq> \<lparr>q_value = 4 * 2 ^ 30, q_format = BinarySI\<rparr>
   \<and> (4000000000 :: rat) \<noteq> 4 * 2 ^ 30"
  by (simp add: applyConfig_def autoscale_2_4G_def cfg_get_def cfg_lookup_def
        ParseQuantity_fragment_2 ParseQuantity_fragment_4G apply_resources_def
        reset_quantity_def assign_quantity_def quantity_of_def sample_container_def
        one_cpu_one_gib_def Let_def ResourceCPU_def ResourceMemory_def
        request_named_def limit_named_def)

text \<open>
  On a container whose request map is nil the first reset is an assignment to a nil
  map, where \<open>updateResources\<close> of \<open>MergePod\<close> makes the map first.
\<close>

lemma applyConfig_nil_maps_panic:
  "applyConfig ParseQuantity_fragment autoscale_2_4G (sample_container ''main'' no_resources)
     = Inl NilMapAssign"
  by (simp add: applyConfig_def autoscale_2_4G_def cfg_get_def cfg_lookup_def
        ParseQuantity_fragment_2 ParseQuantity_fragment_4G apply_resources_def
        reset_quantity_def assign_quantity_def quantity_of_def sample_container_def
        no_resources_def Let_def)

section \<open>Properties of \<open>createPod\<close>\<close>

text \<open>
  Where the type assertions of the merge path fail, and what a pod that
  \<open>createPod\<close> submits says about the \<open>ttl\<close> entry of its request.
\<close>

lemma applyConfig_autoscale_panic:
  assumes "cfg_get configs ''resource'' = DString ''autoscale''"
    and "\<not> is_string (cfg_get configs ''cpu'') \<or> \<not> is_string (cfg_get configs ''memory'')"
  shows "applyConfig pq configs c = Inl (TypeAssertion ''string'')"
proof -
  let ?E = "(case cfg_get configs ''environmentVariables'' of
               DMap evs \<Rightarrow> append_env_vars evs (c_Env c)
             | _ \<Rightarrow> Inr (c_Env c))"
  show ?thesis
  proof (cases ?E)
    case (Inl p)
    then have "p = TypeAssertion ''string''" using env_step_panic by blast
    then show ?thesis using Inl by (simp add: applyConfig_def)
  next
    case (Inr env)
    have unfold: "applyConfig pq configs c =
      (case cfg_get configs ''cpu'' of
        DString strCpu \<Rightarrow>
          (case cfg_get configs ''memory'' of
             DString strMemory \<Rightarrow>
               (case pq strCpu of
                  None \<Rightarrow> Inr (c\<lparr>c_Env := env, c_Args := (case cfg_get configs ''arguments'' of
                         DStrings arguments \<Rightarrow> c_Args c @ arguments
                       | _ \<Rightarrow> c_Args c)\<rparr>)
                | Some expectCpu \<Rightarrow>
                    (case pq strMemory of
                       None \<Rightarrow> Inr (c\<lparr>c_Env := env, c_Args := (case cfg_get configs ''arguments'' of
                         DStrings arguments \<Rightarrow> c_Args c @ arguments
                       | _ \<Rightarrow> c_Args c)\<rparr>)
                     | Some expectMemory \<Rightarrow> apply_resources expectCpu expectMemory
                         (c\<lparr>c_Env := env, c_Args := (case cfg_get configs ''arguments'' of
                         DStrings arguments \<Rightarrow> c_Args c @ arguments
                       | _ \<Rightarrow> c_Args c)\<rparr>)))
           | _ \<Rightarrow> Inl (TypeAssertion ''string''))
      | _ \<Rightarrow> Inl (TypeAssertion ''string''))"
      unfolding applyConfig_def Let_def using Inr assms(1) by simp
    show ?thesis
    proof (cases "is_string (cfg_get configs ''cpu'')")
      case False
      then show ?thesis unfolding unfold
        by (cases "cfg_get configs ''cpu''") (simp_all add: is_string_def)
    next
      case True
      then obtain s where s: "cfg_get configs ''cpu'' = DString s"
        by (cases "cfg_get configs ''cpu''") (simp_all add: is_string_def)
      have "\<not> is_string (cfg_get configs ''memory'')" using True assms(2) by simp
      then show ?thesis unfolding unfold s
        by (cases "cfg_get configs ''memory''") (simp_all add: is_string_def)
    qed
  qed
qed

lemma merge_containers_head_panic:
  "i \<noteq> 1 \<Longrightarrow> applyConfig pq dc (c\<lparr>c_Image := img\<rparr>) = Inl p \<Longrightarrow>
   merge_containers pq dc img i (c # cs) = Inl p"
  by simp

lemma createPod_pod_merge_panic:
  assumes "LoadPodTemplateFromYaml fs yaml (templateType_of (env_DeployConfig aenv)) = Inr (Some pod)"
    and "MergePodImage pq pod aenv = Inl p"
  shows "createPod_pod fs yaml pq rnd aenv = Inl p"
  using assms by (simp add: createPod_pod_def)

lemma createPod_pod_ttl:
  assumes "LoadPodTemplateFromYaml fs yaml (templateType_of (env_DeployConfig aenv)) = Inr (Some pod)"
    and "MergePodImage pq pod aenv = Inr pod1" and "pod_Containers pod1 \<noteq> []"
  shows "createPod_pod fs yaml pq rnd aenv =
     (let pod2 = pod1\<lparr>pod_Name := env_Name aenv @ ''-'' @ RandString rnd 6\<rparr>
      in case cfg_get (env_DeployConfig aenv) ''ttl'' of
           DNil \<Rightarrow> Inr pod2
         | DString ttlValue \<Rightarrow>
             Inr (pod2\<lparr>pod_Labels :=
               Some ((case pod_Labels pod2 of
                        None \<Rightarrow> Map.empty
                      | Some labels \<Rightarrow> labels)(AENV_TTL \<mapsto> ttlValue))\<rparr>)
         | _ \<Rightarrow> Inl (TypeAssertion ''string''))"
  using assms by (simp add: createPod_pod_def)

lemma createPod_pod_Inr_ttl:
  assumes "createPod_pod fs yaml pq rnd aenv = Inr pod'"
  shows "cfg_get (env_DeployConfig aenv) ''ttl'' = DNil
       \<or> (\<exists>ttlValue. cfg_get (env_DeployConfig aenv) ''ttl'' = DString ttlValue
            \<and> label pod' AENV_TTL = ttlValue)"
proof -
  let ?L = "LoadPodTemplateFromYaml fs yaml (templateType_of (env_DeployConfig aenv))"
  obtain r where r: "?L = Inr r"
    using assms by (cases ?L) (simp_all add: createPod_pod_def)
  obtain pod where pod: "r = Some pod"
    using assms r by (cases r) (simp_all add: createPod_pod_def)
  obtain pod1 where pod1: "MergePodImage pq pod aenv = Inr pod1"
    using assms r pod by (cases "MergePodImage pq pod aenv") (simp_all add: createPod_pod_def)
  have ne: "pod_Containers pod1 \<noteq> []"
    using assms r pod pod1 by (auto simp: createPod_pod_def split: if_splits)
  show ?thesis
    using assms createPod_pod_ttl [of fs yaml aenv pod pq pod1 rnd] r pod pod1 ne
    by (cases "cfg_get (env_DeployConfig aenv) ''ttl''") (auto simp: Let_def label_def)
qed

text \<open>
  Claim C9. The merge path of \<open>createPod\<close> is not total. A request whose deploy
  configuration sets \<open>resource = autoscale\<close> and whose \<open>cpu\<close> or \<open>memory\<close> entry is
  missing or no string panics on a type assertion as soon as the template loads with a
  container. A request whose \<open>ttl\<close> entry is present, not null and no string never
  gets a reply: the handler panics, on the type assertion of the TTL when it gets that
  far.
\<close>

theorem createPod_type_assertion_panics:
  "(cfg_get (env_DeployConfig aenv) ''resource'' = DString ''autoscale''
      \<and> (\<not> is_string (cfg_get (env_DeployConfig aenv) ''cpu'')
           \<or> \<not> is_string (cfg_get (env_DeployConfig aenv) ''memory''))
      \<and> LoadPodTemplateFromYaml fs yaml (templateType_of (env_DeployConfig aenv)) = Inr (Some pod)
      \<and> pod_Containers pod \<noteq> []
    \<longrightarrow> createPod fs yaml ParseQuantity rnd create (Inr aenv) = Inl (TypeAssertion ''string''))
   \<and> (cfg_get (env_DeployConfig aenv2) ''ttl'' \<noteq> DNil
      \<and> \<not> is_string (cfg_get (env_DeployConfig aenv2) ''ttl'')
    \<longrightarrow> (\<exists>p. createPod fs2 yaml2 ParseQuantity2 rnd2 create2 (Inr aenv2) = Inl p)
        \<and> (LoadPodTemplateFromYaml fs2 yaml2 (templateType_of (env_DeployConfig aenv2))
              = Inr (Some pod2)
            \<and> MergePodImage ParseQuantity2 pod2 aenv2 = Inr pod2'
            \<and> pod_Containers pod2' \<noteq> []
           \<longrightarrow> createPod fs2 yaml2 ParseQuantity2 rnd2 create2 (Inr aenv2)
                 = Inl (TypeAssertion ''string'')))"
proof (intro conjI impI)
  assume h: "cfg_get (env_DeployConfig aenv) ''resource'' = DString ''autoscale''
      \<and> (\<not> is_string (cfg_get (env_DeployConfig aenv) ''cpu'')
           \<or> \<not> is_string (cfg_get (env_DeployConfig aenv) ''memory''))
      \<and> LoadPodTemplateFromYaml fs yaml (templateType_of (env_DeployConfig aenv)) = Inr (Some pod)
      \<and> pod_Containers pod \<noteq> []"
  then obtain c cs where cs: "pod_Containers pod = c # cs"
    by (cases "pod_Containers pod") auto
  have "applyConfig ParseQuantity (env_DeployConfig aenv)
          (c\<lparr>c_Image := first_image (env_Artifacts aenv)\<rparr>) = Inl (TypeAssertion ''string'')"
    using h applyConfig_autoscale_panic by blast
  then have "MergePodImage ParseQuantity pod aenv = Inl (TypeAssertion ''string'')"
    using cs by (simp add: MergePodImage_def Let_def)
  then have "createPod_pod fs yaml ParseQuantity rnd aenv = Inl (TypeAssertion ''string'')"
    using h createPod_pod_merge_panic by blast
  then show "createPod fs yaml ParseQuantity rnd create (Inr aenv) = Inl (TypeAssertion ''string'')"
    by (simp add: createPod_def)
next
  assume t: "cfg_get (env_DeployConfig aenv2) ''ttl'' \<noteq> DNil
      \<and> \<not> is_string (cfg_get (env_DeployConfig aenv2) ''ttl'')"
  have "\<exists>p. createPod_pod fs2 yaml2 ParseQuantity2 rnd2 aenv2 = Inl p"
  proof (cases "createPod_pod fs2 yaml2 ParseQuantity2 rnd2 aenv2")
    case (Inl p)
    then show ?thesis by blast
  next
    case (Inr pod')
    then show ?thesis
      using createPod_pod_Inr_ttl [OF Inr] t by (auto simp: is_string_def)
  qed
  then show "\<exists>p. createPod fs2 yaml2 ParseQuantity2 rnd2 create2 (Inr aenv2) = Inl p"
    by (auto simp: createPod_def)
next
  assume t: "cfg_get (env_DeployConfig aenv2) ''ttl'' \<noteq> DNil
      \<and> \<not> is_string (cfg_get (env_DeployConfig aenv2) ''ttl'')"
    and l: "LoadPodTemplateFromYaml fs2 yaml2 (templateType_of (env_DeployConfig aenv2))
              = Inr (Some pod2)
            \<and> MergePodImage ParseQuantity2 pod2 aenv2 = Inr pod2'
            \<and> pod_Containers pod2' \<noteq> []"
  have "createPod_pod fs2 yaml2 ParseQuantity2 rnd2 aenv2 = Inl (TypeAssertion ''string'')"
    using t l createPod_pod_ttl [of fs2 yaml2 aenv2 pod2 ParseQuantity2 pod2' rnd2]
    by (cases "cfg_get (env_DeployConfig aenv2) ''ttl''") (simp_all add: Let_def is_string_def)
  then show "createPod fs2 yaml2 ParseQuantity2 rnd2 create2 (Inr aenv2)
                 = Inl (TypeAssertion ''string'')"
    by (simp add: createPod_def)
qed

text \<open>
  Two requests on the sample single-container template: \<open>resource = autoscale\<close> with
  no \<open>cpu\<close>, and \<open>ttl = 5\<close>.
\<close>

theorem createPod_type_assertion_panics_witness:
  "createPod sample_fs sample_yaml ParseQuantity_fragment sample_rnd sample_create
     (Inr (sample_env [''resource'' \<mapsto> DString ''autoscale''])) = Inl (TypeAssertion ''string'')
   \<and> createPod sample_fs sample_yaml ParseQuantity_fragment sample_rnd sample_create
     (Inr (sample_env [''ttl'' \<mapsto> DFloat 5])) = Inl (TypeAssertion ''string'')"
proof -
  let ?a = "sample_env [''resource'' \<mapsto> DString ''autoscale'']"
  let ?b = "sample_env [''ttl'' \<mapsto> DFloat 5]"
  let ?pod = "single_template\<lparr>pod_ResourceVersion := [], pod_UID := []\<rparr>"
  have a: "cfg_get (env_DeployConfig ?a) ''resource'' = DString ''autoscale''"
      "\<not> is_string (cfg_get (env_DeployConfig ?a) ''cpu'')
         \<or> \<not> is_string (cfg_get (env_DeployConfig ?a) ''memory'')"
    by (simp_all add: sample_env_def cfg_get_def cfg_lookup_def is_string_def)
  have la: "LoadPodTemplateFromYaml sample_fs sample_yaml (templateType_of (env_DeployConfig ?a))
              = Inr (Some ?pod)"
    by (simp add: sample_env_def templateType_of_def cfg_lookup_def
          LoadPodTemplateFromYaml_def sample_fs_def sample_yaml_def)
  have ne: "pod_Containers ?pod \<noteq> []"
    by (simp add: single_template_def sample_template_def)
  have b: "cfg_get (env_DeployConfig ?b) ''ttl'' \<noteq> DNil"
      "\<not> is_string (cfg_get (env_DeployConfig ?b) ''ttl'')"
    by (simp_all add: sample_env_def cfg_get_def cfg_lookup_def is_string_def)
  have lb: "LoadPodTemplateFromYaml sample_fs sample_yaml (templateType_of (env_DeployConfig ?b))
              = Inr (Some ?pod)"
    by (simp add: sample_env_def templateType_of_def cfg_lookup_def
          LoadPodTemplateFromYaml_def sample_fs_def sample_yaml_def)
  have mb: "\<exists>pod'. MergePodImage ParseQuantity_fragment ?pod ?b = Inr pod'
               \<and> pod_Containers pod' \<noteq> []"
    by (simp add: MergePodImage_def Let_def single_template_def sample_template_def
          applyConfig_def sample_env_def cfg_get_def cfg_lookup_def)
  then obtain pod' where pod': "MergePodImage ParseQuantity_fragment ?pod ?b = Inr pod'"
      "pod_Containers pod' \<noteq> []" by blast
  show ?thesis
    using a la ne b lb pod'
      createPod_type_assertion_panics [of ?a sample_fs sample_yaml ?pod ParseQuantity_fragment
        sample_rnd sample_create ?b sample_fs sample_yaml ParseQuantity_fragment sample_rnd
        sample_create ?pod pod']
    by blast
qed

section \<open>Properties of the template store\<close>

text \<open>
  Claim C6, as the code has it. For every template kind, primary or secondary, whose
  blueprint is in neither the configured directory nor at its legacy path, template
  loading panics: the loader returns a pod and has no error result. The same panic
  leaves \<open>createPod\<close> for a request that names the kind, and
  \<open>LoadNsFromPodTemplate\<close> at startup.
\<close>

theorem missing_template_panics:
  "fs (templateFilePath machineType) = None \<and> fs (legacyTemplateFileName machineType) = None
   \<longrightarrow> LoadPodTemplateFromYaml fs yaml machineType
         = Inl (PanicError (''failed to read YAML file '' @ legacyTemplateFileName machineType))
       \<and> LoadNsFromPodTemplate fs yaml machineType
         = Inl (PanicError (''failed to read YAML file '' @ legacyTemplateFileName machineType))
       \<and> (templateType_of (env_DeployConfig aenv) = machineType
            \<longrightarrow> createPod fs yaml ParseQuantity rnd create (Inr aenv)
                  = Inl (PanicError (''failed to read YAML file ''
                           @ legacyTemplateFileName machineType)))"
  by (simp add: LoadPodTemplateFromYaml_def loadPodTemplateFromLegacyPath_def
        LoadNsFromPodTemplate_def createPod_def createPod_pod_def)

text \<open>The kind \<open>win64\<close> on the sample file system, which holds one blueprint.\<close>

theorem missing_template_panics_witness:
  "sample_fs (templateFilePath WIN64) = None \<and> sample_fs (legacyTemplateFileName WIN64) = None
   \<and> templateType_of (env_DeployConfig (sample_env [''podTemplate'' \<mapsto> DString WIN64])) = WIN64
   \<and> LoadPodTemplateFromYaml sample_fs sample_yaml WIN64
        = Inl (PanicError ''failed to read YAML file /home/admin/pod_template_windows/config.yaml'')
   \<and> createPod sample_fs sample_yaml ParseQuantity_fragment sample_rnd sample_create
        (Inr (sample_env [''podTemplate'' \<mapsto> DString WIN64]))
        = Inl (PanicError ''failed to read YAML file /home/admin/pod_template_windows/config.yaml'')"
proof -
  have f: "sample_fs (templateFilePath WIN64) = None"
      "sample_fs (legacyTemplateFileName WIN64) = None"
    by (simp_all add: sample_fs_def templateFilePath_def legacyTemplateFileName_def WIN64_def
          AMD64_def SingleContainerTemplate_def)
  have t: "templateType_of (env_DeployConfig (sample_env [''podTemplate'' \<mapsto> DString WIN64])) = WIN64"
    by (simp add: templateType_of_def sample_env_def cfg_lookup_def WIN64_def)
  have n: "legacyTemplateFileName WIN64 = ''/home/admin/pod_template_windows/config.yaml''"
    by (simp add: legacyTemplateFileName_def WIN64_def AMD64_def SingleContainerTemplate_def)
  show ?thesis
    using f t n
      missing_template_panics [of sample_fs WIN64 sample_yaml
        "sample_env [''podTemplate'' \<mapsto> DString WIN64]" ParseQuantity_fragment sample_rnd
        sample_create]
    by simp
qed

text \<open>
  Claim C6, as stated, has the loading of a missing secondary kind return an error to
  the caller without a panic. A request that names the kind \<open>Terminal\<close>, on a file
  system without its blueprint, ends in the loader's panic and gets no reply from the
  handler.
\<close>

theorem missing_terminal_template_panics:
  "LoadPodTemplateFromYaml sample_fs sample_yaml ''Terminal''
     = Inl (PanicError ''failed to read YAML file /home/admin/pod_template_terminal/config.yaml'')
   \<and> createPod sample_fs sample_yaml ParseQuantity_fragment sample_rnd sample_create
        (Inr (sample_env [''podTemplate'' \<mapsto> DString ''Terminal'']))
     = Inl (PanicError ''failed to read YAML file /home/admin/pod_template_terminal/config.yaml'')"
  by (simp add: LoadPodTemplateFromYaml_def loadPodTemplateFromLegacyPath_def
        createPod_def createPod_pod_def templateType_of_def sample_env_def cfg_lookup_def
        sample_fs_def templateFilePath_def legacyTemplateFileName_def WIN64_def
        AMD64_def SingleContainerTemplate_def)

section \<open>Properties of the create path, from the gateway to the template\<close>

text \<open>
  What the gateway leaves in the deploy configuration under \<open>ttl\<close> and
  \<open>secondImageName\<close>, and how the entries read after the wire.
\<close>

lemma cfg_set_lookup:
  "cfg_set m k v = Inr m' \<Longrightarrow> cfg_lookup m' k' = (if k' = k then Some v else cfg_lookup m k')"
  by (auto simp: cfg_set_def cfg_lookup_def split: option.splits)

lemma CreateEnvInstance_config_steps:
  assumes "CreateEnvInstance_config req deployConfig = Inr dc"
  shows "cfg_lookup dc ''ttl'' = Some (DString (rq_TTL req))"
    and "cfg_lookup dc ''secondImageName'' =
       (if rq_Datasource req \<noteq> []
        then Some (DString ((case cfg_lookup deployConfig ''imagePrefix'' of
                               Some (DString str) \<Rightarrow> str
                             | _ \<Rightarrow> ''docker.io/library/aenv'') @ '':'' @ rq_Datasource req))
        else cfg_lookup deployConfig ''secondImageName'')"
proof -
  define dc1 where "dc1 =
      (if rq_Datasource req \<noteq> []
       then (let made = (case deployConfig of None \<Rightarrow> Map.empty | Some f \<Rightarrow> f);
                 imagePrefix = (case made ''imagePrefix'' of
                                  Some (DString str) \<Rightarrow> str
                                | _ \<Rightarrow> ''docker.io/library/aenv'');
                 secondImageName = imagePrefix @ '':'' @ rq_Datasource req
             in Some (made(''secondImageName'' \<mapsto> DString secondImageName)))
       else deployConfig)"
  let ?E = "(case rq_EnvironmentVariables req of
                 None \<Rightarrow> Inr dc1
               | Some evs \<Rightarrow> cfg_set dc1 ''environmentVariables'' (DStringMap evs))"
  have unf: "CreateEnvInstance_config req deployConfig =
      (case ?E of
         Inl p \<Rightarrow> Inl p
       | Inr dc2 \<Rightarrow>
           (case (case rq_Arguments req of
                    None \<Rightarrow> Inr dc2
                  | Some args \<Rightarrow> cfg_set dc2 ''arguments'' (DStrings args)) of
              Inl p \<Rightarrow> Inl p
            | Inr dc3 \<Rightarrow> cfg_set dc3 ''ttl'' (DString (rq_TTL req))))"
    unfolding CreateEnvInstance_config_def Let_def dc1_def by (rule refl)
  obtain dc2 where dc2: "?E = Inr dc2"
    using assms unf by (cases ?E) simp_all
  let ?A = "(case rq_Arguments req of
                      None \<Rightarrow> Inr dc2
                    | Some args \<Rightarrow> cfg_set dc2 ''arguments'' (DStrings args))"
  have step: "CreateEnvInstance_config req deployConfig =
      (case ?A of Inl p \<Rightarrow> Inl p | Inr dc3 \<Rightarrow> cfg_set dc3 ''ttl'' (DString (rq_TTL req)))"
    using dc2 unf by simp
  obtain dc3 where dc3: "?A = Inr dc3"
    using assms step by (cases ?A) simp_all
  have last: "cfg_set dc3 ''ttl'' (DString (rq_TTL req)) = Inr dc"
    using assms step dc3 by simp
  show "cfg_lookup dc ''ttl'' = Some (DString (rq_TTL req))"
    using cfg_set_lookup [OF last] by simp
  have l1: "cfg_lookup dc1 ''secondImageName'' =
       (if rq_Datasource req \<noteq> []
        then Some (DString ((case cfg_lookup deployConfig ''imagePrefix'' of
                               Some (DString str) \<Rightarrow> str
                             | _ \<Rightarrow> ''docker.io/library/aenv'') @ '':'' @ rq_Datasource req))
        else cfg_lookup deployConfig ''secondImageName'')"
    by (cases deployConfig) (simp_all add: dc1_def Let_def cfg_lookup_def)
  have l2: "cfg_lookup dc2 ''secondImageName'' = cfg_lookup dc1 ''secondImageName''"
  proof (cases "rq_EnvironmentVariables req")
    case None
    then show ?thesis using dc2 by simp
  next
    case (Some evs)
    then have "cfg_set dc1 ''environmentVariables'' (DStringMap evs) = Inr dc2"
      using dc2 by simp
    then show ?thesis using cfg_set_lookup by fastforce
  qed
  have l3: "cfg_lookup dc3 ''secondImageName'' = cfg_lookup dc2 ''secondImageName''"
  proof (cases "rq_Arguments req")
    case None
    then show ?thesis using dc3 by simp
  next
    case (Some args)
    then have "cfg_set dc2 ''arguments'' (DStrings args) = Inr dc3"
      using dc3 by simp
    then show ?thesis using cfg_set_lookup by fastforce
  qed
  have "cfg_lookup dc ''secondImageName'' = cfg_lookup dc3 ''secondImageName''"
    using cfg_set_lookup [OF last] by simp
  then show "cfg_lookup dc ''secondImageName'' =
       (if rq_Datasource req \<noteq> []
        then Some (DString ((case cfg_lookup deployConfig ''imagePrefix'' of
                               Some (DString str) \<Rightarrow> str
                             | _ \<Rightarrow> ''docker.io/library/aenv'') @ '':'' @ rq_Datasource req))
        else cfg_lookup deployConfig ''secondImageName'')"
    using l1 l2 l3 by simp
qed

lemma wire_config_lookup:
  "cfg_lookup (wire_config m) k = map_option wire (cfg_lookup m k)"
  by (cases m) (simp_all add: wire_config_def cfg_lookup_def)

lemma wire_Env_DeployConfig:
  "env_DeployConfig (wire_Env e) = wire_config (be_DeployConfig e)"
  "env_Artifacts (wire_Env e) = be_Artifacts e"
  by (simp_all add: wire_Env_def)

lemma empty_ttl_excluded:
  "label pod AENV_TTL = [] \<Longrightarrow>
   \<exists>expired. fst (ListExpiredPods pd now (Inr items)) = Inr expired \<and> pod \<notin> set expired"
  by (simp add: ListExpiredPods_result parses_def)

lemma label_cong: "pod_Labels a = pod_Labels b \<Longrightarrow> label a k = label b k"
  by (simp add: label_def)

text \<open>
  Claim C10. A cached instance whose TTL label is absent or empty is in no result of
  \<open>ListExpiredPods\<close>. The gateway stores a \<open>ttl\<close> entry whenever it gets as far as
  the backend call; with an empty \<open>ttl\<close> field the pod that \<open>createPod\<close> submits
  has the empty TTL label, so a cached instance with the labels of that pod is never
  listed for reclamation.
\<close>

theorem empty_ttl_never_listed:
  "(label pod AENV_TTL = [] \<longrightarrow>
      (\<exists>expired. fst (ListExpiredPods ParseDuration now (Inr items)) = Inr expired
          \<and> pod \<notin> set expired))
   \<and> (CreateEnvInstance_config req (be_DeployConfig backendEnv) = Inr dc \<longrightarrow>
        cfg_lookup dc ''ttl'' = Some (DString (rq_TTL req))
      \<and> (rq_TTL req = []
           \<and> createPod_pod fs yaml ParseQuantity rnd
                (wire_Env (backendEnv\<lparr>be_DeployConfig := dc\<rparr>)) = Inr submitted
           \<and> pod_Labels cached = pod_Labels submitted \<longrightarrow>
            label submitted AENV_TTL = []
          \<and> (\<exists>expired. fst (ListExpiredPods ParseDuration now (Inr items)) = Inr expired
                \<and> cached \<notin> set expired)))"
proof (intro conjI impI)
  assume "label pod AENV_TTL = []"
  then show "\<exists>expired. fst (ListExpiredPods ParseDuration now (Inr items)) = Inr expired
          \<and> pod \<notin> set expired"
    by (rule empty_ttl_excluded)
next
  assume c: "CreateEnvInstance_config req (be_DeployConfig backendEnv) = Inr dc"
  show ttl: "cfg_lookup dc ''ttl'' = Some (DString (rq_TTL req))"
    using CreateEnvInstance_config_steps(1) [OF c] .
  assume h: "rq_TTL req = []
           \<and> createPod_pod fs yaml ParseQuantity rnd
                (wire_Env (backendEnv\<lparr>be_DeployConfig := dc\<rparr>)) = Inr submitted
           \<and> pod_Labels cached = pod_Labels submitted"
  have "cfg_get (env_DeployConfig (wire_Env (backendEnv\<lparr>be_DeployConfig := dc\<rparr>))) ''ttl''
          = DString []"
    using ttl h by (simp add: cfg_get_def wire_Env_DeployConfig wire_config_lookup)
  then show l: "label submitted AENV_TTL = []"
    using createPod_pod_Inr_ttl [of fs yaml ParseQuantity rnd
        "wire_Env (backendEnv\<lparr>be_DeployConfig := dc\<rparr>)" submitted] h
    by auto
  have "label cached AENV_TTL = []"
    using l h label_cong by metis
  then show "\<exists>expired. fst (ListExpiredPods ParseDuration now (Inr items)) = Inr expired
                \<and> cached \<notin> set expired"
    by (rule empty_ttl_excluded)
qed


text \<open>
  A request with an empty \<open>ttl\<close> for the sample definition, on the sample
  single-container template; the cache holds the instance next to one with \<open>1h\<close>.
\<close>

theorem empty_ttl_never_listed_witness:
  "label (sample_pod ''p'' (Some []) 0 ''Running'') AENV_TTL = []
   \<and> CreateEnvInstance_config (sample_request [] [])
         (be_DeployConfig (sample_backend_env [''os'' \<mapsto> DString ''linux'']))
       = Inr (Some [''os'' \<mapsto> DString ''linux'', ''ttl'' \<mapsto> DString []])
   \<and> rq_TTL (sample_request [] []) = []
   \<and> (\<exists>submitted.
         createPod_pod sample_fs sample_yaml ParseQuantity_fragment sample_rnd
           (wire_Env ((sample_backend_env [''os'' \<mapsto> DString ''linux''])
              \<lparr>be_DeployConfig := Some [''os'' \<mapsto> DString ''linux'', ''ttl'' \<mapsto> DString []]\<rparr>))
           = Inr submitted
         \<and> pod_Labels (sample_pod ''p'' (Some []) 0 ''Running'') = pod_Labels submitted
         \<and> label submitted AENV_TTL = [])
   \<and> (\<exists>expired. fst (ListExpiredPods ParseDuration_fragment (2 * hour)
           (Inr [sample_pod ''p'' (Some []) 0 ''Running'',
                 sample_pod ''q'' (Some ''1h'') 0 ''Running''])) = Inr expired
         \<and> sample_pod ''p'' (Some []) 0 ''Running'' \<notin> set expired)"
proof -
  let ?P = "sample_pod ''p'' (Some []) 0 ''Running''"
  let ?B = "sample_backend_env [''os'' \<mapsto> DString ''linux'']"
  let ?D = "Some [''os'' \<mapsto> DString ''linux'', ''ttl'' \<mapsto> DString []]"
  have l: "label ?P AENV_TTL = []" by simp
  have c: "CreateEnvInstance_config (sample_request [] []) (be_DeployConfig ?B) = Inr ?D"
    by (simp add: CreateEnvInstance_config_def sample_request_def sample_backend_env_def
          cfg_set_def)
  have t: "rq_TTL (sample_request [] []) = []" by (simp add: sample_request_def)
  have "\<exists>submitted. createPod_pod sample_fs sample_yaml ParseQuantity_fragment sample_rnd
           (wire_Env (?B\<lparr>be_DeployConfig := ?D\<rparr>)) = Inr submitted
         \<and> pod_Labels ?P = pod_Labels submitted"
    by (simp add: createPod_pod_def templateType_of_def wire_Env_def wire_config_def
          cfg_lookup_def cfg_get_def sample_backend_env_def LoadPodTemplateFromYaml_def
          sample_fs_def sample_yaml_def MergePodImage_def Let_def single_template_def
          sample_template_def applyConfig_def sample_pod_def)
  then obtain submitted where s:
      "createPod_pod sample_fs sample_yaml ParseQuantity_fragment sample_rnd
           (wire_Env (?B\<lparr>be_DeployConfig := ?D\<rparr>)) = Inr submitted"
      "pod_Labels ?P = pod_Labels submitted"
    by blast
  show ?thesis
    using l c t s
      empty_ttl_never_listed [of ?P ParseDuration_fragment "2 * hour"
        "[?P, sample_pod ''q'' (Some ''1h'') 0 ''Running'']" "sample_request [] []" ?B ?D
        sample_fs sample_yaml ParseQuantity_fragment sample_rnd submitted ?P]
    by blast
qed

text \<open>
  The images after \<open>MergePodImage\<close>: every container has the definition's first
  image artifact, but the container at index 1 has the \<open>secondImageName\<close> entry when
  the configuration has one.
\<close>

lemma merge_containers_images:
  "merge_containers pq dc img i cs = Inr cs' \<Longrightarrow>
   length cs' = length cs
   \<and> (\<forall>j < length cs. c_Image (cs' ! j) =
         (if i + j = 1
          then (case cfg_lookup dc ''secondImageName'' of Some (DString s) \<Rightarrow> s | _ \<Rightarrow> img)
          else img))"
proof (induction cs arbitrary: i cs')
  case Nil
  then show ?case by simp
next
  case (Cons c cs)
  let ?H = "(if i = 1
            then (case cfg_lookup dc ''secondImageName'' of
                    None \<Rightarrow> Inr (c\<lparr>c_Image := img\<rparr>)
                  | Some secondImageName \<Rightarrow>
                      (case secondImageName of
                         DString s \<Rightarrow> Inr (c\<lparr>c_Image := s\<rparr>)
                       | _ \<Rightarrow> Inl (TypeAssertion ''string'')))
            else Inr (c\<lparr>c_Image := img\<rparr>))"
  obtain c1 where c1: "?H = Inr c1"
    using Cons.prems by (cases ?H) simp_all
  obtain c2 where c2: "applyConfig pq dc c1 = Inr c2"
    using Cons.prems c1 by (cases "applyConfig pq dc c1") simp_all
  obtain rest where rest: "merge_containers pq dc img (Suc i) cs = Inr rest"
    using Cons.prems c1 c2 by (cases "merge_containers pq dc img (Suc i) cs") simp_all
  have cs': "cs' = c2 # rest"
    using Cons.prems c1 c2 rest by simp
  have head: "c_Image c1 =
         (if i = 1
          then (case cfg_lookup dc ''secondImageName'' of Some (DString s) \<Rightarrow> s | _ \<Rightarrow> img)
          else img)"
    using c1 by (auto split: if_splits option.splits dyn.splits)
  have img2: "c_Image c2 = c_Image c1"
    using applyConfig_image [OF c2] .
  have tail: "length rest = length cs"
     "\<forall>j < length cs. c_Image (rest ! j) =
         (if Suc i + j = 1
          then (case cfg_lookup dc ''secondImageName'' of Some (DString s) \<Rightarrow> s | _ \<Rightarrow> img)
          else img)"
    using Cons.IH [OF rest] by simp_all
  show ?case
  proof (intro conjI allI impI)
    show "length cs' = length (c # cs)" using cs' tail by simp
  next
    fix j assume j: "j < length (c # cs)"
    show "c_Image (cs' ! j) =
         (if i + j = 1
          then (case cfg_lookup dc ''secondImageName'' of Some (DString s) \<Rightarrow> s | _ \<Rightarrow> img)
          else img)"
    proof (cases j)
      case 0
      then show ?thesis using cs' head img2 by simp
    next
      case (Suc k)
      then have "k < length cs" using j by simp
      then show ?thesis using cs' tail Suc by simp
    qed
  qed
qed

lemma MergePodImage_images:
  assumes "MergePodImage pq pod aenv = Inr pod'"
  shows "length (pod_Containers pod') = length (pod_Containers pod)"
    and "j < length (pod_Containers pod) \<Longrightarrow>
         c_Image (pod_Containers pod' ! j) =
           (if j = 1
            then (case cfg_lookup (env_DeployConfig aenv) ''secondImageName'' of
                    Some (DString s) \<Rightarrow> s | _ \<Rightarrow> first_image (env_Artifacts aenv))
            else first_image (env_Artifacts aenv))"
proof -
  let ?M = "merge_containers pq (env_DeployConfig aenv) (first_image (env_Artifacts aenv)) 0
              (pod_Containers pod)"
  obtain cs where cs: "?M = Inr cs"
    using assms by (cases ?M) (simp_all add: MergePodImage_def Let_def)
  have p: "pod_Containers pod' = cs"
    using assms cs by (auto simp: MergePodImage_def Let_def)
  show "length (pod_Containers pod') = length (pod_Containers pod)"
    using merge_containers_images [OF cs] p by simp
  show "j < length (pod_Containers pod) \<Longrightarrow>
         c_Image (pod_Containers pod' ! j) =
           (if j = 1
            then (case cfg_lookup (env_DeployConfig aenv) ''secondImageName'' of
                    Some (DString s) \<Rightarrow> s | _ \<Rightarrow> first_image (env_Artifacts aenv))
            else first_image (env_Artifacts aenv))"
    using merge_containers_images [OF cs] p by simp
qed

text \<open>
  Claim C5, as the code has it. For a create request whose merge into a template of
  two or more containers returns a pod: with a non-empty datasource \<open>s\<close> and a string
  \<open>imagePrefix\<close> \<open>p\<close> the second container's image is \<open>p:s\<close>; with an empty
  datasource and a definition whose deploy configuration has no \<open>secondImageName\<close>
  entry of its own, the second container has the primary image, as the first one
  does; with an empty datasource and a definition whose deploy configuration already
  has a string under \<open>secondImageName\<close>, the second container has that image.
\<close>

theorem second_image:
  "create_merge ParseQuantity req backendEnv pod = Inr pod' \<and> 2 \<le> length (pod_Containers pod)
   \<longrightarrow> length (pod_Containers pod') = length (pod_Containers pod)
     \<and> c_Image (pod_Containers pod' ! 0) = first_image (be_Artifacts backendEnv)
     \<and> (rq_Datasource req \<noteq> []
          \<and> cfg_lookup (be_DeployConfig backendEnv) ''imagePrefix'' = Some (DString p)
        \<longrightarrow> c_Image (pod_Containers pod' ! 1) = p @ '':'' @ rq_Datasource req)
     \<and> (rq_Datasource req = []
          \<and> cfg_lookup (be_DeployConfig backendEnv) ''secondImageName'' = None
        \<longrightarrow> c_Image (pod_Containers pod' ! 1) = first_image (be_Artifacts backendEnv))
     \<and> (rq_Datasource req = []
          \<and> cfg_lookup (be_DeployConfig backendEnv) ''secondImageName'' = Some (DString preset)
        \<longrightarrow> c_Image (pod_Containers pod' ! 1) = preset)"
proof (intro impI)
  assume h: "create_merge ParseQuantity req backendEnv pod = Inr pod'
               \<and> 2 \<le> length (pod_Containers pod)"
  let ?C = "CreateEnvInstance_config req (be_DeployConfig backendEnv)"
  obtain dc where dc: "?C = Inr dc"
    using h by (cases ?C) (simp_all add: create_merge_def)
  let ?E = "wire_Env (backendEnv\<lparr>be_DeployConfig := dc\<rparr>)"
  have m: "MergePodImage ParseQuantity pod ?E = Inr pod'"
    using h dc by (simp add: create_merge_def)
  have cfg: "cfg_lookup (env_DeployConfig ?E) ''secondImageName''
               = map_option wire (cfg_lookup dc ''secondImageName'')"
    by (simp add: wire_Env_DeployConfig wire_config_lookup)
  have art: "env_Artifacts ?E = be_Artifacts backendEnv"
    by (simp add: wire_Env_DeployConfig)
  have len: "length (pod_Containers pod') = length (pod_Containers pod)"
    using MergePodImage_images(1) [OF m] .
  have l0: "0 < length (pod_Containers pod)" and l1: "1 < length (pod_Containers pod)"
    using h by linarith+
  have i0: "c_Image (pod_Containers pod' ! 0) = first_image (be_Artifacts backendEnv)"
    using MergePodImage_images(2) [OF m l0] art by simp
  have i1: "c_Image (pod_Containers pod' ! 1) =
      (case cfg_lookup (env_DeployConfig ?E) ''secondImageName'' of
         Some (DString s) \<Rightarrow> s | _ \<Rightarrow> first_image (env_Artifacts ?E))"
    using MergePodImage_images(2) [OF m l1] by simp
  have a: "c_Image (pod_Containers pod' ! 1) = p @ '':'' @ rq_Datasource req"
    if "rq_Datasource req \<noteq> []
          \<and> cfg_lookup (be_DeployConfig backendEnv) ''imagePrefix'' = Some (DString p)"
  proof -
    have "cfg_lookup dc ''secondImageName'' = Some (DString (p @ '':'' @ rq_Datasource req))"
      using that CreateEnvInstance_config_steps(2) [OF dc] by simp
    then have "cfg_lookup (env_DeployConfig ?E) ''secondImageName''
                 = Some (DString (p @ '':'' @ rq_Datasource req))"
      using cfg by simp
    then show ?thesis using i1 by simp
  qed
  have b: "c_Image (pod_Containers pod' ! 1) = first_image (be_Artifacts backendEnv)"
    if "rq_Datasource req = []
          \<and> cfg_lookup (be_DeployConfig backendEnv) ''secondImageName'' = None"
  proof -
    have "cfg_lookup dc ''secondImageName'' = None"
      using that CreateEnvInstance_config_steps(2) [OF dc] by simp
    then have "cfg_lookup (env_DeployConfig ?E) ''secondImageName'' = None"
      using cfg by simp
    then show ?thesis using i1 art by simp
  qed
  have c: "c_Image (pod_Containers pod' ! 1) = preset"
    if "rq_Datasource req = []
          \<and> cfg_lookup (be_DeployConfig backendEnv) ''secondImageName'' = Some (DString preset)"
  proof -
    have "cfg_lookup dc ''secondImageName'' = Some (DString preset)"
      using that CreateEnvInstance_config_steps(2) [OF dc] by simp
    then have "cfg_lookup (env_DeployConfig ?E) ''secondImageName'' = Some (DString preset)"
      using cfg by simp
    then show ?thesis using i1 by simp
  qed
  show "length (pod_Containers pod') = length (pod_Containers pod)
     \<and> c_Image (pod_Containers pod' ! 0) = first_image (be_Artifacts backendEnv)
     \<and> (rq_Datasource req \<noteq> []
          \<and> cfg_lookup (be_DeployConfig backendEnv) ''imagePrefix'' = Some (DString p)
        \<longrightarrow> c_Image (pod_Containers pod' ! 1) = p @ '':'' @ rq_Datasource req)
     \<and> (rq_Datasource req = []
          \<and> cfg_lookup (be_DeployConfig backendEnv) ''secondImageName'' = None
        \<longrightarrow> c_Image (pod_Containers pod' ! 1) = first_image (be_Artifacts backendEnv))
     \<and> (rq_Datasource req = []
          \<and> cfg_lookup (be_DeployConfig backendEnv) ''secondImageName'' = Some (DString preset)
        \<longrightarrow> c_Image (pod_Containers pod' ! 1) = preset)"
    using len i0 a b c by blast
qed

text \<open>
  The sample definition with the prefix \<open>registry/data\<close> on the two-container
  template, with the datasource \<open>swe-1\<close> and with the empty datasource; and the
  empty datasource for a definition that brings \<open>registry/side:2\<close> as its second
  image.
\<close>

theorem second_image_witness:
  "2 \<le> length (pod_Containers dual_template)
   \<and> rq_Datasource (sample_request ''swe-1'' ''1h'') \<noteq> []
   \<and> cfg_lookup (be_DeployConfig (sample_backend_env [''imagePrefix'' \<mapsto> DString ''registry/data'']))
        ''imagePrefix'' = Some (DString ''registry/data'')
   \<and> (\<exists>pod'. create_merge ParseQuantity_fragment (sample_request ''swe-1'' ''1h'')
                (sample_backend_env [''imagePrefix'' \<mapsto> DString ''registry/data''])
                dual_template = Inr pod'
          \<and> c_Image (pod_Containers pod' ! 1) = ''registry/data:swe-1'')
   \<and> rq_Datasource (sample_request [] ''1h'') = []
   \<and> cfg_lookup (be_DeployConfig (sample_backend_env [''imagePrefix'' \<mapsto> DString ''registry/data'']))
        ''secondImageName'' = None
   \<and> (\<exists>pod'. create_merge ParseQuantity_fragment (sample_request [] ''1h'')
                (sample_backend_env [''imagePrefix'' \<mapsto> DString ''registry/data''])
                dual_template = Inr pod'
          \<and> c_Image (pod_Containers pod' ! 1) = ''registry/demo:1'')
   \<and> cfg_lookup (be_DeployConfig
          (sample_backend_env [''secondImageName'' \<mapsto> DString ''registry/side:2'']))
        ''secondImageName'' = Some (DString ''registry/side:2'')
   \<and> (\<exists>pod'. create_merge ParseQuantity_fragment (sample_request [] ''1h'')
                (sample_backend_env [''secondImageName'' \<mapsto> DString ''registry/side:2''])
                dual_template = Inr pod'
          \<and> c_Image (pod_Containers pod' ! 1) = ''registry/side:2'')"
proof -
  let ?S = "sample_backend_env [''secondImageName'' \<mapsto> DString ''registry/side:2'']"
  have ps: "cfg_lookup (be_DeployConfig ?S) ''secondImageName''
              = Some (DString ''registry/side:2'')"
    by (simp add: sample_backend_env_def cfg_lookup_def)
  have "\<exists>pod'. create_merge ParseQuantity_fragment (sample_request [] ''1h'') ?S
                 dual_template = Inr pod'"
    by (simp add: create_merge_def CreateEnvInstance_config_def sample_request_def
        sample_backend_env_def cfg_set_def wire_Env_def wire_config_def
        MergePodImage_def Let_def dual_template_def sample_template_def
        applyConfig_def cfg_lookup_def cfg_get_def)
  then obtain pod3 where pod3:
      "create_merge ParseQuantity_fragment (sample_request [] ''1h'') ?S dual_template
         = Inr pod3"
    by blast
  let ?B = "sample_backend_env [''imagePrefix'' \<mapsto> DString ''registry/data'']"
  have len: "2 \<le> length (pod_Containers dual_template)"
    by (simp add: dual_template_def sample_template_def)
  have d1: "rq_Datasource (sample_request ''swe-1'' ''1h'') \<noteq> []"
    and d2: "rq_Datasource (sample_request [] ''1h'') = []"
    by (simp_all add: sample_request_def)
  have p: "cfg_lookup (be_DeployConfig ?B) ''imagePrefix'' = Some (DString ''registry/data'')"
    and n: "cfg_lookup (be_DeployConfig ?B) ''secondImageName'' = None"
    by (simp_all add: sample_backend_env_def cfg_lookup_def)
  have art: "first_image (be_Artifacts ?B) = ''registry/demo:1''"
    by (simp add: sample_backend_env_def)
  have "\<exists>pod'. create_merge ParseQuantity_fragment (sample_request ''swe-1'' ''1h'') ?B
                 dual_template = Inr pod'"
    by (simp add: create_merge_def CreateEnvInstance_config_def sample_request_def
        sample_backend_env_def cfg_set_def wire_Env_def wire_config_def
        MergePodImage_def Let_def dual_template_def sample_template_def
        applyConfig_def cfg_lookup_def cfg_get_def)
  then obtain pod1 where pod1:
      "create_merge ParseQuantity_fragment (sample_request ''swe-1'' ''1h'') ?B dual_template
         = Inr pod1"
    by blast
  have "\<exists>pod'. create_merge ParseQuantity_fragment (sample_request [] ''1h'') ?B
                 dual_template = Inr pod'"
    by (simp add: create_merge_def CreateEnvInstance_config_def sample_request_def
        sample_backend_env_def cfg_set_def wire_Env_def wire_config_def
        MergePodImage_def Let_def dual_template_def sample_template_def
        applyConfig_def cfg_lookup_def cfg_get_def)
  then obtain pod2 where pod2:
      "create_merge ParseQuantity_fragment (sample_request [] ''1h'') ?B dual_template
         = Inr pod2"
    by blast
  have i1: "c_Image (pod_Containers pod1 ! 1) = ''registry/data:swe-1''"
    using second_image [of ParseQuantity_fragment "sample_request ''swe-1'' ''1h''" ?B
        dual_template pod1 "''registry/data''"] pod1 len d1 p
    by (simp add: sample_request_def)
  have i2: "c_Image (pod_Containers pod2 ! 1) = ''registry/demo:1''"
    using second_image [of ParseQuantity_fragment "sample_request [] ''1h''" ?B
        dual_template pod2 "''registry/data''"] pod2 len d2 n art
    by simp
  have i3: "c_Image (pod_Containers pod3 ! 1) = ''registry/side:2''"
    using second_image [of ParseQuantity_fragment "sample_request [] ''1h''" ?S
        dual_template pod3 "''registry/data''" "''registry/side:2''"] pod3 len d2 ps
    by simp
  show ?thesis
    using len d1 d2 p n ps pod1 pod2 pod3 i1 i2 i3 by blast
qed
text \<open>
  Claim C5, as stated, has the second container keep the primary image whenever the
  datasource is empty. A definition whose deploy configuration already holds a
  \<open>secondImageName\<close> entry gets that image in its second container.
\<close>

theorem preset_second_image_kept:
  "map_sum id container_images
     (create_merge ParseQuantity_fragment (sample_request [] [])
        (sample_backend_env [''imagePrefix'' \<mapsto> DString ''registry/data'',
                             ''secondImageName'' \<mapsto> DString ''other/image:tag''])
        dual_template)
   = Inr [''registry/demo:1'', ''other/image:tag'']"
  by (simp add: create_merge_def CreateEnvInstance_config_def sample_request_def
        sample_backend_env_def cfg_set_def wire_Env_def wire_config_def
        MergePodImage_def Let_def dual_template_def sample_template_def
        applyConfig_def cfg_lookup_def cfg_get_def container_images_def)

end
